theory Spec2Isabelle
  imports Complex_Main "HOL-Library.Multiset" "HOL-Library.Sublist"
begin

section \<open>Taxi price prediction: the prediction service and its client\<close>

text \<open>
  The development follows \<^verbatim>\<open>src/taxipred/backend/api.py\<close> (the FastAPI
  service) and \<^verbatim>\<open>src/taxipred/frontend/app.py\<close> (the Streamlit client).

  Conventions of the embedding:
  \<^item> a Python \<^verbatim>\<open>float\<close> is read as the real number it denotes (NaN and the
    infinities are left out); \<^verbatim>\<open>round(x, 2)\<close> is then rounding to the nearest
    multiple of 1/100, ties to even, which is what CPython computes on the exact value
    of \<open>x\<close> before it converts the result back to a double;
  \<^item> a raised exception is a value of type \<open>exn\<close>, and a function that can raise
    returns \<open>exn + 'a\<close> with \<open>Inl\<close> for the exception;
  \<^item> the four objects loaded with joblib (model, scaler, label encoders, feature
    names) are not part of the repository. They are parameters: a record of
    capabilities, each a function that returns a value or the text of the exception
    it raises;
  \<^item> the one-row pandas DataFrame of \<^verbatim>\<open>predict_price\<close> is the ordered list of
    its (column name, value) pairs.
\<close>

subsection \<open>Python values and exceptions\<close>

datatype cell = FloatV real | StrV string | IntV int

text \<open>
  The exceptions that can reach the handler of \<^verbatim>\<open>predict_price\<close>.
  \<open>KeyError\<close>, \<open>ValueError\<close> and \<open>IndexError\<close> carry their single argument;
  \<open>Raised\<close> is any exception raised inside a loaded artifact and carries the text
  that \<^verbatim>\<open>str(e)\<close> gives for it.
\<close>

datatype exn = KeyError string | ValueError string | IndexError string | Raised string

definition hex_digit :: "nat \<Rightarrow> char" where
  "hex_digit n = ''0123456789abcdef'' ! (n mod 16)"

text \<open>
  \<^verbatim>\<open>repr\<close> of a \<^verbatim>\<open>str\<close>: double quotes are chosen when the text has a single
  quote and no double quote, single quotes otherwise; the backslash, the chosen quote and
  the ASCII control characters are escaped. Bytes from 0x80 on (the UTF-8 encoding of a
  non-ASCII code point) are kept as they are.
\<close>

definition py_escape :: "char \<Rightarrow> char \<Rightarrow> string" where
  "py_escape q c =
     (if c = q \<or> c = CHR 0x5C then [CHR 0x5C, c]
      else if c = CHR 0x0A then [CHR 0x5C, CHR ''n'']
      else if c = CHR 0x0D then [CHR 0x5C, CHR ''r'']
      else if c = CHR 0x09 then [CHR 0x5C, CHR ''t'']
      else if (of_char c :: nat) < 32 \<or> (of_char c :: nat) = 127
        then [CHR 0x5C, CHR ''x'', hex_digit (of_char c div 16), hex_digit (of_char c)]
      else [c])"

definition py_repr :: "string \<Rightarrow> string" where
  "py_repr s =
     (let q = (if CHR 0x27 \<in> set s \<and> CHR 0x22 \<notin> set s then CHR 0x22 else CHR 0x27)
      in q # concat (map (py_escape q) s) @ [q])"

text \<open>\<^verbatim>\<open>str(e)\<close>: a \<^verbatim>\<open>KeyError\<close> prints the \<^verbatim>\<open>repr\<close> of its argument.\<close>

fun str_exn :: "exn \<Rightarrow> string" where
  "str_exn (KeyError k) = py_repr k"
| "str_exn (ValueError m) = m"
| "str_exn (IndexError m) = m"
| "str_exn (Raised m) = m"

text \<open>\<^verbatim>\<open>', '.join(xs)\<close> and its general form.\<close>

fun join :: "string \<Rightarrow> string list \<Rightarrow> string" where
  "join sep [] = []"
| "join sep [x] = x"
| "join sep (x # y # ys) = x @ sep @ join sep (y # ys)"

definition py_repr_list :: "string list \<Rightarrow> string" where
  "py_repr_list xs = ''['' @ join '', '' (map py_repr xs) @ '']''"

subsection \<open>The one-row DataFrame\<close>

type_synonym dataframe = "(string \<times> cell) list"

definition columns :: "dataframe \<Rightarrow> string list" where
  "columns df = map fst df"

text \<open>\<^verbatim>\<open>df[col]\<close> for a column that may be absent.\<close>

definition df_getitem :: "dataframe \<Rightarrow> string \<Rightarrow> exn + cell" where
  "df_getitem df col = (case map_of df col of None \<Rightarrow> Inl (KeyError col) | Some v \<Rightarrow> Inr v)"

text \<open>
  \<^verbatim>\<open>df[col] = v\<close>: an existing column keeps its position and takes the new
  value; a new column is appended.
\<close>

definition df_setitem :: "dataframe \<Rightarrow> string \<Rightarrow> cell \<Rightarrow> dataframe" where
  "df_setitem df col v =
     (if col \<in> set (columns df)
      then map (\<lambda>(c, x). if c = col then (c, v) else (c, x)) df
      else df @ [(col, v)])"

text \<open>
  \<^verbatim>\<open>df[names]\<close> with a list of names: the sub-frame with the named columns in the
  order of the list. pandas raises a \<^verbatim>\<open>KeyError\<close> when a name is not a column;
  its text (pandas 2) lists the missing names, each once and in the order of their first
  occurrence, or the whole key when every name is missing (an index too long for one
  line is wrapped by pandas, which is left out).
\<close>

definition not_in_index :: "string list \<Rightarrow> string list \<Rightarrow> exn" where
  "not_in_index names missing =
     (if length missing = length names
      then KeyError (''None of [Index('' @ py_repr_list names
                       @ '', dtype='object')] are in the [columns]'')
      else KeyError (py_repr_list (rev (remdups (rev missing))) @ '' not in index''))"

fun df_take :: "dataframe \<Rightarrow> string list \<Rightarrow> dataframe" where
  "df_take df [] = []"
| "df_take df (n # ns) =
     (case map_of df n of None \<Rightarrow> df_take df ns | Some v \<Rightarrow> (n, v) # df_take df ns)"

definition df_getitem_list :: "dataframe \<Rightarrow> string list \<Rightarrow> exn + dataframe" where
  "df_getitem_list df names =
     (let missing = filter (\<lambda>n. n \<notin> set (columns df)) names
      in if missing = [] then Inr (df_take df names) else Inl (not_in_index names missing))"

text \<open>
  \<^verbatim>\<open>df[names] = values\<close> with a two-dimensional array of one row: pandas checks
  that there are as many value columns as names and then assigns the columns one after
  the other, in the order of the list.
\<close>

abbreviation assign_columns :: "(string \<times> real) list \<Rightarrow> dataframe \<Rightarrow> dataframe" where
  "assign_columns nvs df \<equiv> fold (\<lambda>(n, v) d. df_setitem d n (FloatV v)) nvs df"

definition df_setitem_list :: "dataframe \<Rightarrow> string list \<Rightarrow> real list \<Rightarrow> exn + dataframe" where
  "df_setitem_list df names vals =
     (if length vals \<noteq> length names
      then Inl (ValueError ''Columns must be same length as key'')
      else Inr (assign_columns (zip names vals) df))"

subsection \<open>The loaded artifacts\<close>

text \<open>
  \<^verbatim>\<open>feature_info\<close> is the dictionary with the two name lists.
  A label encoder maps the content of one column to an integer code, or raises.
  The scaler receives the sub-frame of the numerical columns and returns one row of
  numbers, or raises. The model receives the whole row and returns the array of its
  predictions, or raises.
\<close>

record feature_names =
  categorical_features :: "string list"
  numerical_features :: "string list"

type_synonym label_encoder = "cell \<Rightarrow> string + int"

record artifacts =
  model :: "dataframe \<Rightarrow> string + real list"
  scaler :: "dataframe \<Rightarrow> string + real list"
  label_encoders :: "string \<rightharpoonup> label_encoder"
  feature_info :: feature_names

text \<open>A label belongs to the fitted vocabulary of an encoder when the encoder has a code for it.\<close>

definition in_vocabulary :: "label_encoder \<Rightarrow> string \<Rightarrow> bool" where
  "in_vocabulary enc label = (case enc (StrV label) of Inl _ \<Rightarrow> False | Inr _ \<Rightarrow> True)"

subsection \<open>Request and response models\<close>

record TripInput =
  Trip_Distance_km :: real
  Time_of_Day :: string
  Day_of_Week :: string
  Passenger_Count :: real
  Traffic_Conditions :: string
  Weather :: string
  Base_Fare :: real
  Per_Km_Rate :: real
  Per_Minute_Rate :: real
  Trip_Duration_Minutes :: real

record PredictionResponse =
  predicted_price :: real
  currency :: string

text \<open>\<^verbatim>\<open>trip.dict()\<close>: the fields in the order of their declaration.\<close>

definition TripInput_dict :: "TripInput \<Rightarrow> dataframe" where
  "TripInput_dict trip =
     [(''Trip_Distance_km'', FloatV (Trip_Distance_km trip)),
      (''Time_of_Day'', StrV (Time_of_Day trip)),
      (''Day_of_Week'', StrV (Day_of_Week trip)),
      (''Passenger_Count'', FloatV (Passenger_Count trip)),
      (''Traffic_Conditions'', StrV (Traffic_Conditions trip)),
      (''Weather'', StrV (Weather trip)),
      (''Base_Fare'', FloatV (Base_Fare trip)),
      (''Per_Km_Rate'', FloatV (Per_Km_Rate trip)),
      (''Per_Minute_Rate'', FloatV (Per_Minute_Rate trip)),
      (''Trip_Duration_Minutes'', FloatV (Trip_Duration_Minutes trip))]"

text \<open>\<^verbatim>\<open>PredictionResponse(predicted_price=p)\<close>: the currency takes its default.\<close>

definition PredictionResponse_init :: "real \<Rightarrow> PredictionResponse" where
  "PredictionResponse_init p = \<lparr>predicted_price = p, currency = ''SEK''\<rparr>"

subsection \<open>Rounding\<close>

definition round_half_even :: "real \<Rightarrow> int" where
  "round_half_even y =
     (let f = \<lfloor>y\<rfloor>; d = y - of_int f
      in if d < 1 / 2 then f else if 1 / 2 < d then f + 1 else if even f then f else f + 1)"

definition py_round2 :: "real \<Rightarrow> real" where
  "py_round2 x = of_int (round_half_even (x * 100)) / 100"

subsection \<open>The prediction endpoint\<close>

text \<open>
  The loop of lines 101 to 103: for each name of the categorical list that is a column
  of the frame, the column is replaced by its code. The right-hand side is evaluated
  first: \<^verbatim>\<open>label_encoders[col]\<close>, then \<^verbatim>\<open>df[col]\<close>, then the transform.
\<close>

fun encode_categorical :: "artifacts \<Rightarrow> string list \<Rightarrow> dataframe \<Rightarrow> exn + dataframe" where
  "encode_categorical A [] df = Inr df"
| "encode_categorical A (col # cols) df =
     (if col \<in> set (columns df) then
        (case label_encoders A col of
           None \<Rightarrow> Inl (KeyError col)
         | Some enc \<Rightarrow>
             (case df_getitem df col of
                Inl e \<Rightarrow> Inl e
              | Inr v \<Rightarrow>
                  (case enc v of
                     Inl m \<Rightarrow> Inl (Raised m)
                   | Inr code \<Rightarrow> encode_categorical A cols (df_setitem df col (IntV code)))))
      else encode_categorical A cols df)"

text \<open>Lines 105 to 107: the numerical columns are selected, scaled and written back.\<close>

definition scale_numerical :: "artifacts \<Rightarrow> dataframe \<Rightarrow> exn + dataframe" where
  "scale_numerical A df =
     (let names = numerical_features (feature_info A) in
      case df_getitem_list df names of
        Inl e \<Rightarrow> Inl e
      | Inr sub \<Rightarrow>
          (case scaler A sub of
             Inl m \<Rightarrow> Inl (Raised m)
           | Inr vals \<Rightarrow> df_setitem_list df names vals))"

text \<open>Line 109: \<^verbatim>\<open>model.predict(df)[0]\<close>.\<close>

definition model_predict0 :: "artifacts \<Rightarrow> dataframe \<Rightarrow> exn + real" where
  "model_predict0 A df =
     (case model A df of
        Inl m \<Rightarrow> Inl (Raised m)
      | Inr [] \<Rightarrow> Inl (IndexError ''index 0 is out of bounds for axis 0 with size 0'')
      | Inr (y # ys) \<Rightarrow> Inr y)"

text \<open>The body of the \<^verbatim>\<open>try\<close> block, lines 97 to 113.\<close>

definition predict_price_body :: "artifacts \<Rightarrow> TripInput \<Rightarrow> exn + PredictionResponse" where
  "predict_price_body A trip =
     (let input_data = TripInput_dict trip;
          df = input_data
      in case encode_categorical A (categorical_features (feature_info A)) df of
           Inl e \<Rightarrow> Inl e
         | Inr df1 \<Rightarrow>
             (case scale_numerical A df1 of
                Inl e \<Rightarrow> Inl e
              | Inr df2 \<Rightarrow>
                  (case model_predict0 A df2 of
                     Inl e \<Rightarrow> Inl e
                   | Inr prediction \<Rightarrow> Inr (PredictionResponse_init (py_round2 prediction)))))"

text \<open>
  What the endpoint answers: the response model with status 200, an
  \<^verbatim>\<open>HTTPException\<close> with its status code and detail, or the 422 answer that
  FastAPI gives when the body does not validate.
\<close>

datatype validation_error =
    Missing string
  | NotAFloat string
  | NotAStr string
  | NotGt string real
  | NotLe string real

datatype http_response =
    Response200 PredictionResponse
  | HTTPException nat string
  | RequestValidationError "validation_error list"

fun status_code_of :: "http_response \<Rightarrow> nat" where
  "status_code_of (Response200 r) = 200"
| "status_code_of (HTTPException code detail) = code"
| "status_code_of (RequestValidationError errs) = 422"

definition predict_price :: "artifacts \<Rightarrow> TripInput \<Rightarrow> http_response" where
  "predict_price A trip =
     (case predict_price_body A trip of
        Inr r \<Rightarrow> Response200 r
      | Inl e \<Rightarrow> HTTPException 500 (''Prediction error: '' @ str_exn e))"

subsection \<open>Request validation\<close>

text \<open>
  The body of \<^verbatim>\<open>POST /predict\<close> is a JSON object: the list of its members in
  the order in which they are written. When a name is written twice the last member
  counts, as in \<^verbatim>\<open>json.loads\<close>. Members that \<open>TripInput\<close> does not declare are
  ignored.

  A member of a \<^verbatim>\<open>float\<close> field is read when it is a JSON number and a member of
  a \<^verbatim>\<open>str\<close> field when it is a JSON string. pydantic can also coerce between
  the two kinds (a numeric string for a float field); such bodies are answered here with
  a type error.
\<close>

datatype jval = JNum real | JStr string

type_synonym json_object = "(string \<times> jval) list"

definition json_get :: "json_object \<Rightarrow> string \<Rightarrow> jval option" where
  "json_get body k = map_of (rev body) k"

text \<open>\<^verbatim>\<open>Field(..., gt=g)\<close> and \<^verbatim>\<open>Field(..., gt=g, le=l)\<close> on a float field.\<close>

definition float_field :: "json_object \<Rightarrow> string \<Rightarrow> real \<Rightarrow> real option \<Rightarrow> validation_error + real" where
  "float_field body name g l =
     (case json_get body name of
        None \<Rightarrow> Inl (Missing name)
      | Some (JStr s) \<Rightarrow> Inl (NotAFloat name)
      | Some (JNum x) \<Rightarrow>
          (if \<not> g < x then Inl (NotGt name g)
           else case l of
                  None \<Rightarrow> Inr x
                | Some b \<Rightarrow> if x \<le> b then Inr x else Inl (NotLe name b)))"

definition str_field :: "json_object \<Rightarrow> string \<Rightarrow> validation_error + string" where
  "str_field body name =
     (case json_get body name of
        None \<Rightarrow> Inl (Missing name)
      | Some (JNum x) \<Rightarrow> Inl (NotAStr name)
      | Some (JStr s) \<Rightarrow> Inr s)"

fun errors_of :: "'e + 'a \<Rightarrow> 'e list" where
  "errors_of (Inl e) = [e]"
| "errors_of (Inr x) = []"

text \<open>
  Validation of the ten fields, lines 41 to 50. Every field is checked and the errors
  are reported together, in the order of the fields.
\<close>

definition TripInput_validate :: "json_object \<Rightarrow> validation_error list + TripInput" where
  "TripInput_validate body =
     (let distance = float_field body ''Trip_Distance_km'' 0 None;
          time = str_field body ''Time_of_Day'';
          day = str_field body ''Day_of_Week'';
          passengers = float_field body ''Passenger_Count'' 0 (Some 10);
          traffic = str_field body ''Traffic_Conditions'';
          weather = str_field body ''Weather'';
          base = float_field body ''Base_Fare'' 0 None;
          km_rate = float_field body ''Per_Km_Rate'' 0 None;
          minute_rate = float_field body ''Per_Minute_Rate'' 0 None;
          duration = float_field body ''Trip_Duration_Minutes'' 0 None;
          errors = errors_of distance @ errors_of time @ errors_of day
                   @ errors_of passengers @ errors_of traffic @ errors_of weather
                   @ errors_of base @ errors_of km_rate @ errors_of minute_rate
                   @ errors_of duration
      in if errors = []
         then Inr \<lparr>Trip_Distance_km = projr distance, Time_of_Day = projr time,
                   Day_of_Week = projr day, Passenger_Count = projr passengers,
                   Traffic_Conditions = projr traffic, Weather = projr weather,
                   Base_Fare = projr base, Per_Km_Rate = projr km_rate,
                   Per_Minute_Rate = projr minute_rate,
                   Trip_Duration_Minutes = projr duration\<rparr>
         else Inl errors)"

text \<open>
  \<^verbatim>\<open>POST /predict\<close>: FastAPI validates the body against \<open>TripInput\<close> and calls
  \<open>predict_price\<close> only with a validated trip.
\<close>

definition post_predict :: "artifacts \<Rightarrow> json_object \<Rightarrow> http_response" where
  "post_predict A body =
     (case TripInput_validate body of
        Inl errors \<Rightarrow> RequestValidationError errors
      | Inr trip \<Rightarrow> predict_price A trip)"

text \<open>
  The constraints of the data model, in the words of the specification: a body violates
  one when its number for the distance, the base fare, one of the two rates or the
  duration is not positive, or its number of passengers is not positive or is above 10.
\<close>

fun number_where :: "jval option \<Rightarrow> (real \<Rightarrow> bool) \<Rightarrow> bool" where
  "number_where (Some (JNum x)) bad = bad x"
| "number_where v bad = False"

definition violates_constraint :: "json_object \<Rightarrow> bool" where
  "violates_constraint body =
     (number_where (json_get body ''Trip_Distance_km'') (\<lambda>x. x \<le> 0)
      \<or> number_where (json_get body ''Passenger_Count'') (\<lambda>x. x \<le> 0 \<or> 10 < x)
      \<or> number_where (json_get body ''Base_Fare'') (\<lambda>x. x \<le> 0)
      \<or> number_where (json_get body ''Per_Km_Rate'') (\<lambda>x. x \<le> 0)
      \<or> number_where (json_get body ''Per_Minute_Rate'') (\<lambda>x. x \<le> 0)
      \<or> number_where (json_get body ''Trip_Duration_Minutes'') (\<lambda>x. x \<le> 0))"

subsection \<open>The serving process\<close>

text \<open>
  The artifacts are module-level variables that hold Python objects, loaded once (lines
  31 to 34). A method call on a Python object can change the object, so what a request
  leaves behind is followed explicitly here: an object is a value of a type \<open>'o\<close>, and
  a call of a method returns its result together with the object as the call leaves it.
  The methods are those of the libraries the objects come from.
\<close>

record 'o library =
  encoder_transform :: "'o \<Rightarrow> cell \<Rightarrow> (string + int) \<times> 'o"
  scaler_transform :: "'o \<Rightarrow> dataframe \<Rightarrow> (string + real list) \<times> 'o"
  model_predict :: "'o \<Rightarrow> dataframe \<Rightarrow> (string + real list) \<times> 'o"

text \<open>The four module-level variables: the state of the process between two requests.\<close>

record 'o process =
  model_var :: 'o
  scaler_var :: 'o
  label_encoders_var :: "string \<rightharpoonup> 'o"
  feature_info_var :: feature_names

text \<open>
  The handler again, statement by statement, on the state of the process. It assigns
  to none of the four variables; the only way it can change the state is through the
  objects it calls. After a call the object stands where it stood, as the call left it.
\<close>

fun encode_categorical_run ::
  "'o library \<Rightarrow> string list \<Rightarrow> dataframe \<Rightarrow> 'o process \<Rightarrow> (exn + dataframe) \<times> 'o process" where
  "encode_categorical_run L [] df P = (Inr df, P)"
| "encode_categorical_run L (col # cols) df P =
     (if col \<in> set (columns df) then
        (case label_encoders_var P col of
           None \<Rightarrow> (Inl (KeyError col), P)
         | Some enc \<Rightarrow>
             (case df_getitem df col of
                Inl e \<Rightarrow> (Inl e, P)
              | Inr v \<Rightarrow>
                  (case encoder_transform L enc v of
                     (Inl m, enc') \<Rightarrow>
                       (Inl (Raised m),
                        P\<lparr>label_encoders_var := (label_encoders_var P)(col \<mapsto> enc')\<rparr>)
                   | (Inr code, enc') \<Rightarrow>
                       encode_categorical_run L cols (df_setitem df col (IntV code))
                         (P\<lparr>label_encoders_var := (label_encoders_var P)(col \<mapsto> enc')\<rparr>))))
      else encode_categorical_run L cols df P)"

definition scale_numerical_run ::
  "'o library \<Rightarrow> dataframe \<Rightarrow> 'o process \<Rightarrow> (exn + dataframe) \<times> 'o process" where
  "scale_numerical_run L df P =
     (let names = numerical_features (feature_info_var P) in
      case df_getitem_list df names of
        Inl e \<Rightarrow> (Inl e, P)
      | Inr sub \<Rightarrow>
          (case scaler_transform L (scaler_var P) sub of
             (Inl m, s') \<Rightarrow> (Inl (Raised m), P\<lparr>scaler_var := s'\<rparr>)
           | (Inr vals, s') \<Rightarrow> (df_setitem_list df names vals, P\<lparr>scaler_var := s'\<rparr>)))"

definition model_predict0_run ::
  "'o library \<Rightarrow> dataframe \<Rightarrow> 'o process \<Rightarrow> (exn + real) \<times> 'o process" where
  "model_predict0_run L df P =
     (case model_predict L (model_var P) df of
        (Inl m, m') \<Rightarrow> (Inl (Raised m), P\<lparr>model_var := m'\<rparr>)
      | (Inr [], m') \<Rightarrow>
          (Inl (IndexError ''index 0 is out of bounds for axis 0 with size 0''),
           P\<lparr>model_var := m'\<rparr>)
      | (Inr (y # ys), m') \<Rightarrow> (Inr y, P\<lparr>model_var := m'\<rparr>))"

definition predict_price_body_run ::
  "'o library \<Rightarrow> TripInput \<Rightarrow> 'o process \<Rightarrow> (exn + PredictionResponse) \<times> 'o process" where
  "predict_price_body_run L trip P =
     (let input_data = TripInput_dict trip;
          df = input_data
      in case encode_categorical_run L (categorical_features (feature_info_var P)) df P of
           (Inl e, P1) \<Rightarrow> (Inl e, P1)
         | (Inr df1, P1) \<Rightarrow>
             (case scale_numerical_run L df1 P1 of
                (Inl e, P2) \<Rightarrow> (Inl e, P2)
              | (Inr df2, P2) \<Rightarrow>
                  (case model_predict0_run L df2 P2 of
                     (Inl e, P3) \<Rightarrow> (Inl e, P3)
                   | (Inr prediction, P3) \<Rightarrow>
                       (Inr (PredictionResponse_init (py_round2 prediction)), P3))))"

definition predict_price_run ::
  "'o library \<Rightarrow> TripInput \<Rightarrow> 'o process \<Rightarrow> http_response \<times> 'o process" where
  "predict_price_run L trip P =
     (case predict_price_body_run L trip P of
        (Inr r, P') \<Rightarrow> (Response200 r, P')
      | (Inl e, P') \<Rightarrow> (HTTPException 500 (''Prediction error: '' @ str_exn e), P'))"

definition post_predict_run ::
  "'o library \<Rightarrow> json_object \<Rightarrow> 'o process \<Rightarrow> http_response \<times> 'o process" where
  "post_predict_run L body P =
     (case TripInput_validate body of
        Inl errors \<Rightarrow> (RequestValidationError errors, P)
      | Inr trip \<Rightarrow> predict_price_run L trip P)"

text \<open>The process answers its requests one after the other.\<close>

fun serve :: "'o library \<Rightarrow> 'o process \<Rightarrow> json_object list \<Rightarrow> http_response list \<times> 'o process" where
  "serve L P [] = ([], P)"
| "serve L P (body # bodies) =
     (case post_predict_run L body P of
        (r, P') \<Rightarrow> (case serve L P' bodies of (rs, P'') \<Rightarrow> (r # rs, P'')))"

text \<open>
  The artifacts are held fixed when no method changes the object it is called on. What
  a state of the process then offers to a request is the record of capabilities used
  above.
\<close>

definition read_only :: "'o library \<Rightarrow> bool" where
  "read_only L =
     ((\<forall>enc v. snd (encoder_transform L enc v) = enc)
      \<and> (\<forall>s sub. snd (scaler_transform L s sub) = s)
      \<and> (\<forall>m df. snd (model_predict L m df) = m))"

definition artifacts_of :: "'o library \<Rightarrow> 'o process \<Rightarrow> artifacts" where
  "artifacts_of L P =
     \<lparr>model = (\<lambda>df. fst (model_predict L (model_var P) df)),
      scaler = (\<lambda>sub. fst (scaler_transform L (scaler_var P) sub)),
      label_encoders =
        (\<lambda>col. map_option (\<lambda>enc v. fst (encoder_transform L enc v)) (label_encoders_var P col)),
      feature_info = feature_info_var P\<rparr>"

subsection \<open>An artifact set for examples\<close>

text \<open>
  The joblib files are not in the repository. The examples below run on a small
  artifact set of the same shape: label encoders over sorted vocabularies that raise on
  an unseen label as scikit-learn's \<^verbatim>\<open>LabelEncoder\<close> does, a standardising
  scaler that insists on the column names it was fitted with, and a linear model.
\<close>

fun index_of :: "'a \<Rightarrow> 'a list \<Rightarrow> nat option" where
  "index_of x [] = None"
| "index_of x (y # ys) = (if x = y then Some 0 else map_option Suc (index_of x ys))"

definition example_encoder :: "string list \<Rightarrow> label_encoder" where
  "example_encoder classes v =
     (case v of
        StrV s \<Rightarrow>
          (case index_of s classes of
             None \<Rightarrow> Inl (''y contains previously unseen labels: '' @ py_repr s)
           | Some i \<Rightarrow> Inr (int i))
      | _ \<Rightarrow> Inl ''y contains previously unseen labels'')"

fun cell_float :: "cell \<Rightarrow> string + real" where
  "cell_float (FloatV x) = Inr x"
| "cell_float (IntV i) = Inr (of_int i)"
| "cell_float (StrV s) = Inl (''could not convert string to float: '' @ py_repr s)"

fun cells_float :: "cell list \<Rightarrow> string + real list" where
  "cells_float [] = Inr []"
| "cells_float (c # cs) =
     (case cell_float c of
        Inl m \<Rightarrow> Inl m
      | Inr x \<Rightarrow> (case cells_float cs of Inl m \<Rightarrow> Inl m | Inr xs \<Rightarrow> Inr (x # xs)))"

definition example_feature_info :: feature_names where
  "example_feature_info =
     \<lparr>categorical_features = [''Time_of_Day'', ''Day_of_Week'', ''Traffic_Conditions'', ''Weather''],
      numerical_features = [''Trip_Distance_km'', ''Passenger_Count'', ''Base_Fare'',
                            ''Per_Km_Rate'', ''Per_Minute_Rate'', ''Trip_Duration_Minutes'']\<rparr>"

definition example_scaler :: "dataframe \<Rightarrow> string + real list" where
  "example_scaler sub =
     (if columns sub \<noteq> numerical_features example_feature_info
      then Inl ''The feature names should match those that were passed during fit.''
      else case cells_float (map snd sub) of
             Inl m \<Rightarrow> Inl m
           | Inr xs \<Rightarrow>
               Inr (map2 (\<lambda>x (mean, scale). (x - mean) / scale) xs
                      [(25, 20), (2, 1), (7 / 2, 1), (1, 1 / 2), (3 / 10, 1 / 10), (60, 30)]))"

definition example_model :: "dataframe \<Rightarrow> string + real list" where
  "example_model df =
     (case cells_float (map snd df) of
        Inl m \<Rightarrow> Inl m
      | Inr xs \<Rightarrow> Inr [50 + sum_list (map2 (*) [20, 1, 2, 3, 4, 5, 6, 7, 8, 10] xs)])"

definition example_label_encoders :: "string \<rightharpoonup> label_encoder" where
  "example_label_encoders =
     [''Time_of_Day'' \<mapsto> example_encoder [''Afternoon'', ''Evening'', ''Morning''],
      ''Day_of_Week'' \<mapsto> example_encoder [''Weekday'', ''Weekend''],
      ''Traffic_Conditions'' \<mapsto> example_encoder [''High'', ''Low'', ''Medium''],
      ''Weather'' \<mapsto> example_encoder [''Clear'', ''Fog'', ''Rain'']]"

definition example_artifacts :: artifacts where
  "example_artifacts =
     \<lparr>model = example_model, scaler = example_scaler,
      label_encoders = example_label_encoders, feature_info = example_feature_info\<rparr>"

text \<open>
  The same artifact set as objects of a process: calling a method leaves the object as
  it was.
\<close>

datatype example_object = LabelEncoder "string list" | StandardScaler | Regressor

definition example_library :: "example_object library" where
  "example_library =
     \<lparr>encoder_transform =
        (\<lambda>obj v. (case obj of
                      LabelEncoder classes \<Rightarrow> example_encoder classes v
                    | _ \<Rightarrow> Inl ''object has no attribute transform'', obj)),
      scaler_transform = (\<lambda>obj sub. (example_scaler sub, obj)),
      model_predict = (\<lambda>obj df. (example_model df, obj))\<rparr>"

definition example_process :: "example_object process" where
  "example_process =
     \<lparr>model_var = Regressor, scaler_var = StandardScaler,
      label_encoders_var =
        [''Time_of_Day'' \<mapsto> LabelEncoder [''Afternoon'', ''Evening'', ''Morning''],
         ''Day_of_Week'' \<mapsto> LabelEncoder [''Weekday'', ''Weekend''],
         ''Traffic_Conditions'' \<mapsto> LabelEncoder [''High'', ''Low'', ''Medium''],
         ''Weather'' \<mapsto> LabelEncoder [''Clear'', ''Fog'', ''Rain'']],
      feature_info_var = example_feature_info\<rparr>"

text \<open>
  A library whose objects count the calls made on them, and a process of such objects
  with empty name lists.
\<close>

definition counting_library :: "nat library" where
  "counting_library =
     \<lparr>encoder_transform = (\<lambda>n v. (Inr 0, Suc n)),
      scaler_transform = (\<lambda>n sub. (Inr (map (\<lambda>c. 0) sub), Suc n)),
      model_predict = (\<lambda>n df. (Inr [0], Suc n))\<rparr>"

definition counting_process :: "nat process" where
  "counting_process =
     \<lparr>model_var = 0, scaler_var = 0, label_encoders_var = Map.empty,
      feature_info_var = \<lparr>categorical_features = [], numerical_features = []\<rparr>\<rparr>"

text \<open>
  An artifact set whose feature names list \<^verbatim>\<open>Weather\<close> as categorical and as
  numerical, with a scaler that shifts every value by 5.
\<close>

definition overlap_scaler :: "dataframe \<Rightarrow> string + real list" where
  "overlap_scaler sub =
     (case cells_float (map snd sub) of
        Inl m \<Rightarrow> Inl m
      | Inr xs \<Rightarrow> Inr (map (\<lambda>x. x + 5) xs))"

definition overlap_artifacts :: artifacts where
  "overlap_artifacts =
     \<lparr>model = example_model, scaler = overlap_scaler,
      label_encoders = example_label_encoders,
      feature_info =
        \<lparr>categorical_features = categorical_features example_feature_info,
         numerical_features = numerical_features example_feature_info @ [''Weather'']\<rparr>\<rparr>"

definition overlap_scaled :: dataframe where
  "overlap_scaled =
     [(''Trip_Distance_km'', FloatV (41 / 2)), (''Time_of_Day'', IntV 2),
      (''Day_of_Week'', IntV 0), (''Passenger_Count'', FloatV 7),
      (''Traffic_Conditions'', IntV 2), (''Weather'', FloatV 5),
      (''Base_Fare'', FloatV (17 / 2)), (''Per_Km_Rate'', FloatV (13 / 2)),
      (''Per_Minute_Rate'', FloatV (53 / 10)), (''Trip_Duration_Minutes'', FloatV 30)]"

text \<open>The example request of the schema, lines 55 to 64.\<close>

definition example_trip :: TripInput where
  "example_trip =
     \<lparr>Trip_Distance_km = 31 / 2, Time_of_Day = ''Morning'', Day_of_Week = ''Weekday'',
      Passenger_Count = 2, Traffic_Conditions = ''Medium'', Weather = ''Clear'',
      Base_Fare = 7 / 2, Per_Km_Rate = 3 / 2, Per_Minute_Rate = 3 / 10,
      Trip_Duration_Minutes = 25\<rparr>"

definition example_body :: json_object where
  "example_body =
     [(''Trip_Distance_km'', JNum (31 / 2)), (''Time_of_Day'', JStr ''Morning''),
      (''Day_of_Week'', JStr ''Weekday''), (''Passenger_Count'', JNum 2),
      (''Traffic_Conditions'', JStr ''Medium''), (''Weather'', JStr ''Clear''),
      (''Base_Fare'', JNum (7 / 2)), (''Per_Km_Rate'', JNum (3 / 2)),
      (''Per_Minute_Rate'', JNum (3 / 10)), (''Trip_Duration_Minutes'', JNum 25)]"

text \<open>The row of the example request after the encoding loop and after the scaling step.\<close>

definition example_encoded :: dataframe where
  "example_encoded =
     [(''Trip_Distance_km'', FloatV (31 / 2)), (''Time_of_Day'', IntV 2),
      (''Day_of_Week'', IntV 0), (''Passenger_Count'', FloatV 2),
      (''Traffic_Conditions'', IntV 2), (''Weather'', IntV 0),
      (''Base_Fare'', FloatV (7 / 2)), (''Per_Km_Rate'', FloatV (3 / 2)),
      (''Per_Minute_Rate'', FloatV (3 / 10)), (''Trip_Duration_Minutes'', FloatV 25)]"

definition example_scaled :: dataframe where
  "example_scaled =
     [(''Trip_Distance_km'', FloatV (- (19 / 40))), (''Time_of_Day'', IntV 2),
      (''Day_of_Week'', IntV 0), (''Passenger_Count'', FloatV 0),
      (''Traffic_Conditions'', IntV 2), (''Weather'', IntV 0),
      (''Base_Fare'', FloatV 0), (''Per_Km_Rate'', FloatV 1),
      (''Per_Minute_Rate'', FloatV 0), (''Trip_Duration_Minutes'', FloatV (- (7 / 6)))]"

text \<open>The example request with a time of day that no encoder was fitted on.\<close>

definition midnight_trip :: TripInput where
  "midnight_trip = example_trip\<lparr>Time_of_Day := ''Midnight''\<rparr>"

definition midnight_body :: json_object where
  "midnight_body = example_body @ [(''Time_of_Day'', JStr ''Midnight'')]"

definition unseen_midnight :: string where
  "unseen_midnight = ''y contains previously unseen labels: '' @ py_repr ''Midnight''"

text \<open>The example body with a distance of exactly 0 and of just below 0.\<close>

definition zero_distance_body :: json_object where
  "zero_distance_body = (''Trip_Distance_km'', JNum 0) # tl example_body"

definition negative_distance_body :: json_object where
  "negative_distance_body = (''Trip_Distance_km'', JNum (- (1 / 1000))) # tl example_body"

section \<open>The client\<close>

text \<open>
  The Streamlit script is run from top to bottom at every interaction; a button is true
  in the run that follows its click. The model keeps the calls the script makes to the
  outside (geocoder, distance, HTTP), the value it leaves in
  \<^verbatim>\<open>st.session_state.route_result\<close>, and the elements it writes to the page;
  the spinners are left out, and the folium map is kept as its centre, its two markers
  and the distance on its line.
  An element whose text formats a float is kept with its values instead of its text.
\<close>

subsection \<open>Outside services\<close>

datatype client_exn = ConnectionError string | Exception string

fun str_client_exn :: "client_exn \<Rightarrow> string" where
  "str_client_exn (ConnectionError m) = m"
| "str_client_exn (Exception m) = m"

text \<open>
  What \<^verbatim>\<open>requests.post\<close> returns: the status code and what
  \<^verbatim>\<open>response.json()\<close> gives, a JSON object or an exception.
\<close>

record api_response =
  status_code :: nat
  json :: "client_exn + json_object"

record location =
  latitude :: real
  longitude :: real

record services =
  geocode :: "string \<Rightarrow> client_exn + location option"
  geodesic_kilometers :: "real \<times> real \<Rightarrow> real \<times> real \<Rightarrow> client_exn + real"
  post :: "json_object \<Rightarrow> client_exn + api_response"

subsection \<open>Page elements\<close>

record trip_summary =
  summary_distance :: real
  summary_duration :: int
  summary_time :: string
  summary_day :: string
  summary_traffic :: string
  summary_weather :: string

record folium_map =
  map_location :: "real \<times> real"
  start_marker :: "(real \<times> real) \<times> string"
  destination_marker :: "(real \<times> real) \<times> string"
  line_distance :: real

record route_success =
  from_location :: string
  to_location :: string
  distance_km :: real
  route_predicted_price :: jval
  route_currency :: jval
  route_map :: folium_map
  route_time :: string
  route_day :: string
  route_traffic :: string
  route_weather :: string
  route_duration :: int

datatype route_result = RouteSuccess route_success | RouteFailure string

datatype ui =
    St_success string
  | St_success_found real
  | St_markdown string
  | St_markdown_price real jval
  | St_info_trip trip_summary
  | St_info_route route_success
  | St_folium folium_map
  | St_error string
  | Uncaught string

fun shows_price :: "ui \<Rightarrow> bool" where
  "shows_price (St_markdown_price p c) = True"
| "shows_price u = False"

text \<open>The text of an element that has one.\<close>

fun text_of :: "ui \<Rightarrow> string" where
  "text_of (St_success t) = t"
| "text_of (St_markdown t) = t"
| "text_of (St_error t) = t"
| "text_of (Uncaught t) = t"
| "text_of u = []"

subsection \<open>Formatting\<close>

definition digit_char :: "nat \<Rightarrow> char" where
  "digit_char n = ''0123456789'' ! (n mod 10)"

fun str_nat :: "nat \<Rightarrow> string" where
  "str_nat n = (if n < 10 then [digit_char n] else str_nat (n div 10) @ [digit_char n])"

declare str_nat.simps [simp del]

definition cross_mark :: string where
  "cross_mark = [CHR 0xE2, CHR 0x9D, CHR 0x8C]"

definition world_map :: string where
  "world_map = [CHR 0xF0, CHR 0x9F, CHR 0x97, CHR 0xBA, CHR 0xEF, CHR 0xB8, CHR 0x8F]"

text \<open>
  \<^verbatim>\<open>f"{v:.2f}"\<close> on a value of a JSON object: a number formats, a string raises
  a \<^verbatim>\<open>ValueError\<close>.
\<close>

definition format_2f :: "jval \<Rightarrow> client_exn + real" where
  "format_2f v =
     (case v of
        JNum p \<Rightarrow> Inr p
      | JStr s \<Rightarrow> Inl (Exception (''Unknown format code '' @ py_repr ''f''
                              @ '' for object of type '' @ py_repr ''str'')))"

text \<open>\<^verbatim>\<open>result[key]\<close> on the dictionary of a response.\<close>

definition result_getitem :: "json_object \<Rightarrow> string \<Rightarrow> client_exn + jval" where
  "result_getitem result key =
     (case json_get result key of None \<Rightarrow> Inl (Exception (py_repr key)) | Some v \<Rightarrow> Inr v)"

subsection \<open>Basic prediction (lines 127 to 167)\<close>

record basic_form =
  trip_distance :: real
  time_of_day :: string
  day_of_week :: string
  passenger_count :: int
  traffic_conditions :: string
  weather :: string
  base_fare :: real
  per_km_rate :: real
  per_minute_rate :: real
  trip_duration :: int

definition basic_trip_data :: "basic_form \<Rightarrow> json_object" where
  "basic_trip_data f =
     [(''Trip_Distance_km'', JNum (trip_distance f)),
      (''Time_of_Day'', JStr (time_of_day f)),
      (''Day_of_Week'', JStr (day_of_week f)),
      (''Passenger_Count'', JNum (of_int (passenger_count f))),
      (''Traffic_Conditions'', JStr (traffic_conditions f)),
      (''Weather'', JStr (weather f)),
      (''Base_Fare'', JNum (base_fare f)),
      (''Per_Km_Rate'', JNum (per_km_rate f)),
      (''Per_Minute_Rate'', JNum (per_minute_rate f)),
      (''Trip_Duration_Minutes'', JNum (of_int (trip_duration f)))]"

definition basic_summary :: "basic_form \<Rightarrow> trip_summary" where
  "basic_summary f =
     \<lparr>summary_distance = trip_distance f, summary_duration = trip_duration f,
      summary_time = time_of_day f, summary_day = day_of_week f,
      summary_traffic = traffic_conditions f, summary_weather = weather f\<rparr>"

text \<open>
  The branch of status 200, lines 146 to 160: the elements written so far, and the
  exception that ended the branch, if any.
\<close>

definition basic_show :: "basic_form \<Rightarrow> api_response \<Rightarrow> ui list \<times> client_exn option" where
  "basic_show f response =
     (case json response of
        Inl e \<Rightarrow> ([], Some e)
      | Inr result \<Rightarrow>
          (case result_getitem result ''predicted_price'' of
             Inl e \<Rightarrow> ([], Some e)
           | Inr price \<Rightarrow>
               (let shown = [St_success ''Prediction successful!'',
                             St_markdown ''### Estimated Trip Price'']
                in case format_2f price of
                     Inl e \<Rightarrow> (shown, Some e)
                   | Inr p \<Rightarrow>
                       (case result_getitem result ''currency'' of
                          Inl e \<Rightarrow> (shown, Some e)
                        | Inr cur \<Rightarrow>
                            (shown @ [St_markdown_price p cur, St_info_trip (basic_summary f)],
                             None)))))"

text \<open>The two handlers of lines 164 to 167.\<close>

fun basic_except :: "client_exn \<Rightarrow> ui" where
  "basic_except (ConnectionError m) = St_error ''Cannot connect to backend API''"
| "basic_except (Exception m) = St_error (''Error: '' @ m)"

text \<open>
  A click on the button: the elements written to the page and the bodies posted to the
  prediction service.
\<close>

definition basic_predict :: "services \<Rightarrow> basic_form \<Rightarrow> ui list \<times> json_object list" where
  "basic_predict S f =
     (let trip_data = basic_trip_data f in
      case post S trip_data of
        Inl e \<Rightarrow> ([basic_except e], [trip_data])
      | Inr response \<Rightarrow>
          (if status_code response = 200 then
             (case basic_show f response of
                (shown, None) \<Rightarrow> (shown, [trip_data])
              | (shown, Some e) \<Rightarrow> (shown @ [basic_except e], [trip_data]))
           else ([St_error (''Error: '' @ str_nat (status_code response))], [trip_data])))"

subsection \<open>Route-based prediction (lines 243 to 376)\<close>

record route_form =
  form_from_location :: string
  form_to_location :: string
  form_route_time :: string
  form_route_day :: string
  form_route_passengers :: int
  form_route_traffic :: string
  form_route_weather :: string
  form_route_base :: real
  form_route_km_rate :: real
  form_route_min_rate :: real
  form_route_duration :: int

definition route_trip_data :: "route_form \<Rightarrow> real \<Rightarrow> json_object" where
  "route_trip_data f d =
     [(''Trip_Distance_km'', JNum d),
      (''Time_of_Day'', JStr (form_route_time f)),
      (''Day_of_Week'', JStr (form_route_day f)),
      (''Passenger_Count'', JNum (of_int (form_route_passengers f))),
      (''Traffic_Conditions'', JStr (form_route_traffic f)),
      (''Weather'', JStr (form_route_weather f)),
      (''Base_Fare'', JNum (form_route_base f)),
      (''Per_Km_Rate'', JNum (form_route_km_rate f)),
      (''Per_Minute_Rate'', JNum (form_route_min_rate f)),
      (''Trip_Duration_Minutes'', JNum (of_int (form_route_duration f)))]"

definition make_map :: "route_form \<Rightarrow> location \<Rightarrow> location \<Rightarrow> real \<Rightarrow> folium_map" where
  "make_map f from_loc to_loc d =
     \<lparr>map_location = ((latitude from_loc + latitude to_loc) / 2,
                       (longitude from_loc + longitude to_loc) / 2),
      start_marker = ((latitude from_loc, longitude from_loc),
                       ''From: '' @ form_from_location f),
      destination_marker = ((latitude to_loc, longitude to_loc),
                             ''To: '' @ form_to_location f),
      line_distance = d\<rparr>"

text \<open>Lines 308 to 331: what the answer of the service leaves in the session state.\<close>

definition route_store :: "route_form \<Rightarrow> real \<Rightarrow> folium_map \<Rightarrow> api_response \<Rightarrow> client_exn + route_result" where
  "route_store f d m response =
     (if status_code response = 200 then
        (case json response of
           Inl e \<Rightarrow> Inl e
         | Inr result \<Rightarrow>
             (case result_getitem result ''predicted_price'' of
                Inl e \<Rightarrow> Inl e
              | Inr price \<Rightarrow>
                  (case result_getitem result ''currency'' of
                     Inl e \<Rightarrow> Inl e
                   | Inr cur \<Rightarrow>
                       Inr (RouteSuccess
                         \<lparr>from_location = form_from_location f,
                          to_location = form_to_location f,
                          distance_km = d,
                          route_predicted_price = price,
                          route_currency = cur,
                          route_map = m,
                          route_time = form_route_time f,
                          route_day = form_route_day f,
                          route_traffic = form_route_traffic f,
                          route_weather = form_route_weather f,
                          route_duration = form_route_duration f\<rparr>))))
      else Inr (RouteFailure (''Prediction error: '' @ str_nat (status_code response))))"

text \<open>Lines 334 to 338: one message for each place that was not found.\<close>

definition error_msg :: "route_form \<Rightarrow> location option \<Rightarrow> location option \<Rightarrow> string list" where
  "error_msg f from_loc to_loc =
     (if from_loc = None then [''Could not find location: '' @ form_from_location f] else [])
     @ (if to_loc = None then [''Could not find location: '' @ form_to_location f] else [])"

text \<open>
  The body of the \<^verbatim>\<open>try\<close> block, lines 248 to 343: the new value of
  \<^verbatim>\<open>route_result\<close> or the exception, and the bodies posted.
\<close>

definition route_try :: "services \<Rightarrow> route_form \<Rightarrow> (client_exn + route_result) \<times> json_object list" where
  "route_try S f =
     (case geocode S (form_from_location f) of
        Inl e \<Rightarrow> (Inl e, [])
      | Inr from_loc \<Rightarrow>
          (case geocode S (form_to_location f) of
             Inl e \<Rightarrow> (Inl e, [])
           | Inr to_loc \<Rightarrow>
               (case (from_loc, to_loc) of
                  (Some a, Some b) \<Rightarrow>
                    (case geodesic_kilometers S (latitude a, longitude a)
                                                (latitude b, longitude b) of
                       Inl e \<Rightarrow> (Inl e, [])
                     | Inr d \<Rightarrow>
                         (let m = make_map f a b d;
                              trip_data = route_trip_data f d
                          in case post S trip_data of
                               Inl e \<Rightarrow> (Inl e, [trip_data])
                             | Inr response \<Rightarrow> (route_store f d m response, [trip_data])))
                | _ \<Rightarrow>
                    (Inr (RouteFailure (join '' | '' (error_msg f from_loc to_loc))), []))))"

text \<open>A click on the button, with the handler of lines 345 to 349.\<close>

definition route_predict :: "services \<Rightarrow> route_form \<Rightarrow> route_result \<times> json_object list" where
  "route_predict S f =
     (case route_try S f of
        (Inr r, posted) \<Rightarrow> (r, posted)
      | (Inl e, posted) \<Rightarrow> (RouteFailure (str_client_exn e), posted))"

text \<open>
  Lines 352 to 376: the stored result is written to the page. The price is formatted
  outside any \<^verbatim>\<open>try\<close>; an exception there ends the run and Streamlit shows it.
\<close>

fun route_display :: "route_result option \<Rightarrow> ui list" where
  "route_display None = []"
| "route_display (Some (RouteFailure err)) = [St_error (cross_mark @ '' '' @ err)]"
| "route_display (Some (RouteSuccess r)) =
     [St_success_found (distance_km r),
      St_markdown (''### '' @ world_map @ '' Route Map''),
      St_folium (route_map r),
      St_markdown ''### Estimated Trip Price'']
     @ (case format_2f (route_predicted_price r) of
          Inl e \<Rightarrow> [Uncaught (str_client_exn e)]
        | Inr p \<Rightarrow> [St_markdown_price p (route_currency r), St_info_route r])"

text \<open>
  One run of the second tab: \<open>clicked\<close> tells whether the button was clicked, the
  session state is the stored \<^verbatim>\<open>route_result\<close> (\<open>None\<close> before the first
  click). The run returns the new session state, the page and the bodies posted.
\<close>

definition route_tab ::
  "services \<Rightarrow> route_form \<Rightarrow> bool \<Rightarrow> route_result option
     \<Rightarrow> route_result option \<times> ui list \<times> json_object list" where
  "route_tab S f clicked session =
     (if clicked then
        (case route_predict S f of (r, posted) \<Rightarrow> (Some r, route_display (Some r), posted))
      else (session, route_display session, []))"

subsection \<open>Client examples\<close>

text \<open>
  The forms with the default values of the widgets, a geocoder that knows two places, a
  fixed distance between them, and two prediction services: one that answers every
  request with status 500 and a detail, one that cannot be reached.
\<close>

definition example_form :: basic_form where
  "example_form =
     \<lparr>trip_distance = 31 / 2, time_of_day = ''Morning'', day_of_week = ''Weekday'',
      passenger_count = 2, traffic_conditions = ''Medium'', weather = ''Clear'',
      base_fare = 7 / 2, per_km_rate = 3 / 2, per_minute_rate = 3 / 10,
      trip_duration = 25\<rparr>"

definition goteborg :: string where
  "goteborg = ''G'' @ [CHR 0xC3, CHR 0xB6] @ ''teborg''"

definition example_route_form :: route_form where
  "example_route_form =
     \<lparr>form_from_location = ''Stockholm'', form_to_location = goteborg,
      form_route_time = ''Morning'', form_route_day = ''Weekday'',
      form_route_passengers = 2, form_route_traffic = ''Medium'',
      form_route_weather = ''Clear'', form_route_base = 7 / 2,
      form_route_km_rate = 3 / 2, form_route_min_rate = 3 / 10,
      form_route_duration = 180\<rparr>"

definition atlantis_route_form :: route_form where
  "atlantis_route_form = example_route_form\<lparr>form_to_location := ''Atlantis''\<rparr>"

definition example_geocode :: "string \<Rightarrow> client_exn + location option" where
  "example_geocode name =
     (if name = ''Stockholm'' then Inr (Some \<lparr>latitude = 5933 / 100, longitude = 1807 / 100\<rparr>)
      else if name = goteborg then Inr (Some \<lparr>latitude = 5771 / 100, longitude = 1197 / 100\<rparr>)
      else Inr None)"

definition server_detail :: string where
  "server_detail = ''Prediction error: '' @ unseen_midnight"

definition failing_services :: services where
  "failing_services =
     \<lparr>geocode = example_geocode,
      geodesic_kilometers = (\<lambda>a b. Inr 398),
      post = (\<lambda>body. Inr \<lparr>status_code = 500,
                                json = Inr [(''detail'', JStr server_detail)]\<rparr>)\<rparr>"

definition unreachable_services :: services where
  "unreachable_services =
     \<lparr>geocode = example_geocode,
      geodesic_kilometers = (\<lambda>a b. Inr 398),
      post = (\<lambda>body. Inl (ConnectionError ''Connection refused''))\<rparr>"

text \<open>
  A geocoder that does not find \<^verbatim>\<open>Atlantis\<close> and raises on every other name,
  and a form that asks for the route from there.
\<close>

definition flaky_services :: services where
  "flaky_services =
     \<lparr>geocode = (\<lambda>name. if name = ''Atlantis'' then Inr None
                        else Inl (Exception ''Service timed out'')),
      geodesic_kilometers = (\<lambda>a b. Inr 398),
      post = (\<lambda>body. Inr \<lparr>status_code = 500,
                                json = Inr [(''detail'', JStr server_detail)]\<rparr>)\<rparr>"

definition flaky_route_form :: route_form where
  "flaky_route_form = example_route_form\<lparr>form_from_location := ''Atlantis''\<rparr>"

section \<open>The example, step by step\<close>

lemma example_validate: "TripInput_validate example_body = Inr example_trip"
  by (simp add: TripInput_validate_def example_body_def example_trip_def float_field_def
      str_field_def json_get_def)

lemma midnight_validate: "TripInput_validate midnight_body = Inr midnight_trip"
  by (simp add: TripInput_validate_def midnight_body_def midnight_trip_def example_body_def
      example_trip_def float_field_def str_field_def json_get_def)

lemma example_encode:
  "encode_categorical example_artifacts (categorical_features (feature_info example_artifacts))
     (TripInput_dict example_trip) = Inr example_encoded"
  by (simp add: example_artifacts_def example_feature_info_def example_label_encoders_def
      TripInput_dict_def example_trip_def example_encoded_def columns_def df_getitem_def
      df_setitem_def example_encoder_def)

lemma midnight_encode:
  "encode_categorical example_artifacts (categorical_features (feature_info example_artifacts))
     (TripInput_dict midnight_trip) = Inl (Raised unseen_midnight)"
  by (simp add: example_artifacts_def example_feature_info_def example_label_encoders_def
      TripInput_dict_def midnight_trip_def example_trip_def columns_def df_getitem_def
      df_setitem_def example_encoder_def unseen_midnight_def)

lemma example_scale: "scale_numerical example_artifacts example_encoded = Inr example_scaled"
  by (simp add: scale_numerical_def example_artifacts_def example_feature_info_def
      example_encoded_def example_scaled_def df_getitem_list_def columns_def
      example_scaler_def df_setitem_list_def df_setitem_def)

lemma example_model: "model example_artifacts example_scaled = Inr [275 / 6]"
  by (simp add: example_artifacts_def example_model_def example_scaled_def)

lemma example_round: "py_round2 (275 / 6) = 4583 / 100"
proof -
  have "\<lfloor>(275 / 6 * 100 :: real)\<rfloor> = 4583" by simp
  then show ?thesis by (simp add: py_round2_def round_half_even_def Let_def)
qed

lemma example_post:
  "post_predict example_artifacts example_body
     = Response200 \<lparr>predicted_price = 4583 / 100, currency = ''SEK''\<rparr>"
  by (simp add: post_predict_def example_validate predict_price_def predict_price_body_def
      example_encode example_scale model_predict0_def example_model example_round
      PredictionResponse_init_def)

lemma midnight_predict:
  "predict_price example_artifacts midnight_trip
     = HTTPException 500 (''Prediction error: '' @ unseen_midnight)"
  by (simp add: predict_price_def predict_price_body_def midnight_encode)

section \<open>Properties of the prediction service\<close>

subsection \<open>The frame under assignment\<close>

lemma columns_df_setitem:
  "col \<in> set (columns df) \<Longrightarrow> columns (df_setitem df col v) = columns df"
  by (induction df) (auto simp: df_setitem_def columns_def)

lemma length_df_setitem:
  "col \<in> set (columns df) \<Longrightarrow> length (df_setitem df col v) = length df"
  by (simp add: df_setitem_def)

lemma nth_df_setitem:
  "col \<in> set (columns df) \<Longrightarrow> i < length df \<Longrightarrow>
   df_setitem df col v ! i = (if fst (df ! i) = col then (col, v) else df ! i)"
  by (auto simp: df_setitem_def split: prod.splits)

lemma map_of_replace_other:
  "c \<noteq> col \<Longrightarrow>
   map_of (map (\<lambda>(k, x). if k = c then (k, v) else (k, x)) df) col = map_of df col"
  by (induction df) auto

lemma map_of_df_setitem_other:
  "c \<noteq> col \<Longrightarrow> map_of (df_setitem df c v) col = map_of df col"
  by (auto simp: df_setitem_def map_of_replace_other map_add_def split: option.splits)

lemma map_of_columns: "map_of df col = Some v \<Longrightarrow> col \<in> set (columns df)"
  by (metis columns_def map_of_SomeD set_map image_eqI fst_conv)

lemma columns_assign:
  "set (map fst nvs) \<subseteq> set (columns df) \<Longrightarrow> columns (assign_columns nvs df) = columns df"
  by (induction nvs arbitrary: df) (auto simp: columns_df_setitem)

lemma nth_assign:
  "set (map fst nvs) \<subseteq> set (columns df) \<Longrightarrow> i < length df \<Longrightarrow>
   assign_columns nvs df ! i =
     (case map_of (rev nvs) (fst (df ! i)) of
        None \<Rightarrow> df ! i
      | Some v \<Rightarrow> (fst (df ! i), FloatV v))"
proof (induction nvs arbitrary: df)
  case Nil
  then show ?case by simp
next
  case (Cons nv nvs)
  obtain n v where nv: "nv = (n, v)" by (cases nv)
  let ?d = "df_setitem df n (FloatV v)"
  from Cons.prems nv have n: "n \<in> set (columns df)" by simp
  have cols: "columns ?d = columns df" using n by (rule columns_df_setitem)
  have len: "length ?d = length df" using n by (rule length_df_setitem)
  have "assign_columns nvs ?d ! i =
     (case map_of (rev nvs) (fst (?d ! i)) of None \<Rightarrow> ?d ! i | Some w \<Rightarrow> (fst (?d ! i), FloatV w))"
    using Cons.prems nv cols len by (intro Cons.IH) auto
  moreover have "fst (?d ! i) = fst (df ! i)"
    using n Cons.prems(2) by (simp add: nth_df_setitem)
  ultimately show ?case
    using n Cons.prems(2) nv
    by (auto simp: nth_df_setitem map_add_def split: option.splits)
qed

lemma df_getitem_list_Inr:
  "df_getitem_list df names = Inr sub \<Longrightarrow> set names \<subseteq> set (columns df) \<and> sub = df_take df names"
  by (auto simp: df_getitem_list_def Let_def filter_empty_conv split: if_splits)

lemma columns_df_take:
  "set names \<subseteq> set (columns df) \<Longrightarrow> columns (df_take df names) = names"
proof (induction names)
  case Nil
  then show ?case by (simp add: columns_def)
next
  case (Cons n ns)
  then have "n \<in> fst ` set df" by (simp add: columns_def)
  then obtain v where "map_of df n = Some v"
    by (metis map_of_eq_None_iff not_Some_eq)
  with Cons show ?case by (simp add: columns_def)
qed

subsection \<open>The encoding loop\<close>

lemma encode_categorical_columns:
  "encode_categorical A cols df = Inr df' \<Longrightarrow> columns df' = columns df"
proof (induction cols arbitrary: df)
  case Nil
  then show ?case by simp
next
  case (Cons col cols)
  show ?case
  proof (cases "col \<in> set (columns df)")
    case True
    with Cons.prems obtain code where
      "encode_categorical A cols (df_setitem df col (IntV code)) = Inr df'"
      by (auto split: option.splits sum.splits)
    from Cons.IH [OF this] True show ?thesis
      by (simp add: columns_df_setitem)
  next
    case False
    with Cons show ?thesis by simp
  qed
qed

lemma encode_categorical_other_encoder:
  "col \<notin> set (columns df) \<Longrightarrow>
   encode_categorical (A\<lparr>label_encoders := (label_encoders A)(col := e)\<rparr>) cols df
     = encode_categorical A cols df"
proof (induction cols arbitrary: df)
  case Nil
  then show ?case by simp
next
  case (Cons c cols)
  then show ?case
    by (auto simp: columns_df_setitem split: option.splits sum.splits)
qed

lemma encode_categorical_append:
  "encode_categorical A (cs1 @ cs2) df =
     (case encode_categorical A cs1 df of Inl e \<Rightarrow> Inl e | Inr df1 \<Rightarrow> encode_categorical A cs2 df1)"
  by (induction cs1 arbitrary: df) (auto split: option.splits sum.splits)

lemma encode_categorical_untouched:
  "encode_categorical A cols df = Inr df' \<Longrightarrow> col \<notin> set cols \<Longrightarrow> map_of df' col = map_of df col"
proof (induction cols arbitrary: df)
  case Nil
  then show ?case by simp
next
  case (Cons c cols)
  from Cons.prems(2) have ne: "c \<noteq> col" and rest: "col \<notin> set cols" by auto
  show ?case
  proof (cases "c \<in> set (columns df)")
    case True
    with Cons.prems(1) obtain code where
      "encode_categorical A cols (df_setitem df c (IntV code)) = Inr df'"
      by (auto split: option.splits sum.splits)
    from Cons.IH [OF this rest] show ?thesis
      by (simp add: map_of_df_setitem_other [OF ne])
  next
    case False
    with Cons.prems(1) have "encode_categorical A cols df = Inr df'" by simp
    from Cons.IH [OF this rest] show ?thesis .
  qed
qed

text \<open>
  Claim C10. In the encoding loop a name of the categorical list that is not a column
  of the row is skipped: the loop gives what it gives on the list without the name, no
  encoder is consulted for the name (the result is the same whatever is stored under it,
  also nothing), and no error comes from it.
\<close>

theorem skip_absent_column:
  assumes "col \<notin> set (columns df)"
  shows "encode_categorical A (cs1 @ col # cs2) df = encode_categorical A (cs1 @ cs2) df
       \<and> encode_categorical (A\<lparr>label_encoders := (label_encoders A)(col := e)\<rparr>) (cs1 @ col # cs2) df
           = encode_categorical A (cs1 @ cs2) df"
proof -
  have skip: "encode_categorical B (cs1 @ col # cs2) df = encode_categorical B (cs1 @ cs2) df" for B
  proof (cases "encode_categorical B cs1 df")
    case (Inl e)
    then show ?thesis by (simp add: encode_categorical_append)
  next
    case (Inr df1)
    then have "columns df1 = columns df" by (rule encode_categorical_columns)
    with assms Inr show ?thesis by (simp add: encode_categorical_append)
  qed
  show ?thesis
    using skip [of A] skip [of "A\<lparr>label_encoders := (label_encoders A)(col := e)\<rparr>"]
      encode_categorical_other_encoder [OF assms, of A e "cs1 @ cs2"]
    by simp
qed

theorem skip_absent_column_witness:
  "''Season'' \<notin> set (columns (TripInput_dict example_trip))
   \<and> encode_categorical example_artifacts ([''Time_of_Day''] @ ''Season'' # [''Weather''])
         (TripInput_dict example_trip)
       = encode_categorical example_artifacts ([''Time_of_Day''] @ [''Weather''])
           (TripInput_dict example_trip)
   \<and> encode_categorical (example_artifacts\<lparr>label_encoders := (label_encoders example_artifacts)(''Season'' := None)\<rparr>)
         ([''Time_of_Day''] @ ''Season'' # [''Weather'']) (TripInput_dict example_trip)
       = encode_categorical example_artifacts ([''Time_of_Day''] @ [''Weather''])
           (TripInput_dict example_trip)"
proof -
  have h: "''Season'' \<notin> set (columns (TripInput_dict example_trip))"
    by (simp add: columns_def TripInput_dict_def)
  show ?thesis
    using h skip_absent_column [OF h, of example_artifacts "[''Time_of_Day'']" "[''Weather'']" None]
    by blast
qed

subsection \<open>The scaling step\<close>

lemma map_of_assign:
  "c \<notin> fst ` set nvs \<Longrightarrow> map_of (assign_columns nvs df) c = map_of df c"
proof (induction nvs arbitrary: df)
  case Nil
  then show ?case by simp
next
  case (Cons nv nvs)
  obtain n v where nv: "nv = (n, v)" by (cases nv)
  from Cons.prems nv have ne: "n \<noteq> c" and rest: "c \<notin> fst ` set nvs" by auto
  have "map_of (assign_columns nvs (df_setitem df n (FloatV v))) c
          = map_of (df_setitem df n (FloatV v)) c"
    using rest by (rule Cons.IH)
  then show ?case
    using nv by (simp add: map_of_df_setitem_other [OF ne])
qed

text \<open>
  Claim C7, as the code has it. When the scaling step succeeds, the scaler was given
  the sub-frame of exactly the names of the numerical list, in the order of the list;
  the column names of the row and their order are what they were; every column whose
  name is not in the numerical list keeps its value, so every categorical column does
  unless the feature names list it as numerical too; and every column named in the
  numerical list, categorical or not, holds one of the values the scaler returned for
  that name.
\<close>

theorem scale_numerical_frame:
  assumes "scale_numerical A df = Inr df'"
  shows "columns df' = columns df
       \<and> (\<forall>i<length df. fst (df ! i) \<notin> set (numerical_features (feature_info A)) \<longrightarrow> df' ! i = df ! i)
       \<and> (\<forall>c \<in> set (categorical_features (feature_info A)).
            c \<notin> set (numerical_features (feature_info A)) \<longrightarrow> map_of df' c = map_of df c)
       \<and> (\<exists>vals. scaler A (df_take df (numerical_features (feature_info A))) = Inr vals
            \<and> columns (df_take df (numerical_features (feature_info A))) = numerical_features (feature_info A)
            \<and> length vals = length (numerical_features (feature_info A))
            \<and> (\<forall>i<length df. fst (df ! i) \<in> set (numerical_features (feature_info A)) \<longrightarrow>
                  (\<exists>j<length vals. numerical_features (feature_info A) ! j = fst (df ! i)
                      \<and> df' ! i = (fst (df ! i), FloatV (vals ! j)))))"
proof -
  define names where "names = numerical_features (feature_info A)"
  from assms obtain sub vals where
    sub: "df_getitem_list df names = Inr sub" and
    vals: "scaler A sub = Inr vals" and
    set: "df_setitem_list df names vals = Inr df'"
    by (auto simp: scale_numerical_def names_def Let_def split: sum.splits)
  from sub have names: "set names \<subseteq> set (columns df)" and sub_eq: "sub = df_take df names"
    using df_getitem_list_Inr by blast+
  from set have len: "length vals = length names" and df': "df' = assign_columns (zip names vals) df"
    by (auto simp: df_setitem_list_def split: if_splits)
  have fst_zip: "map fst (zip names vals) = names" using len by simp
  then have sub_zip: "set (map fst (zip names vals)) \<subseteq> set (columns df)" using names by simp
  have cols: "columns df' = columns df"
    unfolding df' using sub_zip by (rule columns_assign)
  have nth: "df' ! i = (case map_of (rev (zip names vals)) (fst (df ! i)) of
        None \<Rightarrow> df ! i | Some v \<Rightarrow> (fst (df ! i), FloatV v))" if "i < length df" for i
    unfolding df' using sub_zip that by (rule nth_assign)
  have keep: "df' ! i = df ! i" if "i < length df" "fst (df ! i) \<notin> set names" for i
  proof -
    have "fst (df ! i) \<notin> fst ` set (rev (zip names vals))"
      using that(2) fst_zip by (metis set_map set_rev)
    then have "map_of (rev (zip names vals)) (fst (df ! i)) = None"
      by (simp add: map_of_eq_None_iff)
    with nth [OF that(1)] show ?thesis by simp
  qed
  have keep_named: "map_of df' c = map_of df c" if "c \<notin> set names" for c
  proof -
    have "c \<notin> fst ` set (zip names vals)"
      using that fst_zip by (metis set_map)
    then show ?thesis unfolding df' by (rule map_of_assign)
  qed
  have scaled: "\<exists>j<length vals. names ! j = fst (df ! i) \<and> df' ! i = (fst (df ! i), FloatV (vals ! j))"
    if "i < length df" "fst (df ! i) \<in> set names" for i
  proof -
    have "fst (df ! i) \<in> fst ` set (rev (zip names vals))"
      using that(2) fst_zip by (metis set_map set_rev)
    then obtain v where v: "map_of (rev (zip names vals)) (fst (df ! i)) = Some v"
      by (metis map_of_eq_None_iff not_Some_eq)
    then have "(fst (df ! i), v) \<in> set (zip names vals)"
      using map_of_SomeD by fastforce
    then obtain j where "j < length vals" "names ! j = fst (df ! i)" "vals ! j = v"
      by (auto simp: in_set_zip)
    with nth [OF that(1)] v show ?thesis by auto
  qed
  show ?thesis
    using cols keep keep_named scaled vals sub_eq len columns_df_take [OF names]
    unfolding names_def [symmetric] by auto
qed

theorem scale_numerical_frame_witness:
  "scale_numerical example_artifacts example_encoded = Inr example_scaled
   \<and> columns example_scaled = columns example_encoded
   \<and> fst (example_encoded ! 1) \<notin> set (numerical_features (feature_info example_artifacts))
   \<and> example_scaled ! 1 = example_encoded ! 1
   \<and> ''Weather'' \<in> set (categorical_features (feature_info example_artifacts))
   \<and> ''Weather'' \<notin> set (numerical_features (feature_info example_artifacts))
   \<and> map_of example_scaled ''Weather'' = map_of example_encoded ''Weather''"
proof -
  have h: "scale_numerical example_artifacts example_encoded = Inr example_scaled"
    by (rule example_scale)
  have i: "(1::nat) < length example_encoded" by (simp add: example_encoded_def)
  have n: "fst (example_encoded ! 1) \<notin> set (numerical_features (feature_info example_artifacts))"
    by (simp add: example_encoded_def example_artifacts_def example_feature_info_def)
  have c: "''Weather'' \<in> set (categorical_features (feature_info example_artifacts))"
    by (simp add: example_artifacts_def example_feature_info_def)
  have w: "''Weather'' \<notin> set (numerical_features (feature_info example_artifacts))"
    by (simp add: example_artifacts_def example_feature_info_def)
  show ?thesis
    using h i n c w scale_numerical_frame [OF h] by blast
qed

text \<open>
  Claim C7, as it is stated, has every categorical column keep its value. On the
  artifact set that lists \<^verbatim>\<open>Weather\<close> in both lists, the row of the example
  request leaves the encoding loop with the code 0 for \<^verbatim>\<open>Weather\<close>, and the
  scaling step replaces it by the scaled value.
\<close>

theorem overlap_counterexample:
  "encode_categorical overlap_artifacts (categorical_features (feature_info overlap_artifacts))
      (TripInput_dict example_trip) = Inr example_encoded
   \<and> ''Weather'' \<in> set (categorical_features (feature_info overlap_artifacts))
   \<and> scale_numerical overlap_artifacts example_encoded = Inr overlap_scaled
   \<and> map_of example_encoded ''Weather'' = Some (IntV 0)
   \<and> map_of overlap_scaled ''Weather'' = Some (FloatV 5)"
proof -
  have e: "encode_categorical overlap_artifacts (categorical_features (feature_info overlap_artifacts))
      (TripInput_dict example_trip) = Inr example_encoded"
    by (simp add: overlap_artifacts_def example_feature_info_def example_label_encoders_def
        TripInput_dict_def example_trip_def example_encoded_def columns_def df_getitem_def
        df_setitem_def example_encoder_def)
  have c: "''Weather'' \<in> set (categorical_features (feature_info overlap_artifacts))"
    by (simp add: overlap_artifacts_def example_feature_info_def)
  have s: "scale_numerical overlap_artifacts example_encoded = Inr overlap_scaled"
    by (simp add: scale_numerical_def overlap_artifacts_def example_feature_info_def
        example_encoded_def overlap_scaled_def df_getitem_list_def columns_def
        overlap_scaler_def df_setitem_list_def df_setitem_def)
  have b: "map_of example_encoded ''Weather'' = Some (IntV 0)"
    by (simp add: example_encoded_def)
  have a: "map_of overlap_scaled ''Weather'' = Some (FloatV 5)"
    by (simp add: overlap_scaled_def)
  show ?thesis using e c s b a by blast
qed

subsection \<open>Validation\<close>

lemma number_where_gt:
  "number_where (json_get body name) (\<lambda>x. x \<le> 0) \<Longrightarrow> \<exists>e. float_field body name 0 None = Inl e"
  by (cases "(json_get body name, \<lambda>x::real. x \<le> 0)" rule: number_where.cases)
     (auto simp: float_field_def)

lemma number_where_gt_le:
  "number_where (json_get body name) (\<lambda>x. x \<le> 0 \<or> 10 < x) \<Longrightarrow>
   \<exists>e. float_field body name 0 (Some 10) = Inl e"
  by (cases "(json_get body name, \<lambda>x::real. x \<le> 0 \<or> 10 < x)" rule: number_where.cases)
     (auto simp: float_field_def)

lemma validate_errors:
  "violates_constraint body \<Longrightarrow> \<exists>errors. errors \<noteq> [] \<and> TripInput_validate body = Inl errors"
  unfolding violates_constraint_def TripInput_validate_def Let_def
  using number_where_gt [of body] number_where_gt_le [of body]
  by (elim disjE) fastforce+

text \<open>
  Claim C3. A body that violates a constraint of the data model does not validate:
  the answer is the 422 answer with a non-empty list of errors, and it is the same
  answer whatever the artifacts are, since neither the pipeline nor the model is
  reached. A distance of exactly 0 and a distance just below 0 are two such bodies.
\<close>

theorem constraint_violation_422:
  assumes "violates_constraint body"
  shows "\<exists>errors. errors \<noteq> [] \<and> TripInput_validate body = Inl errors
           \<and> (\<forall>A. post_predict A body = RequestValidationError errors
                    \<and> status_code_of (post_predict A body) = 422)"
  using validate_errors [OF assms] by (auto simp: post_predict_def)

theorem constraint_violation_422_witness:
  "violates_constraint zero_distance_body
   \<and> violates_constraint negative_distance_body
   \<and> status_code_of (post_predict example_artifacts zero_distance_body) = 422
   \<and> status_code_of (post_predict example_artifacts negative_distance_body) = 422"
proof -
  have z: "violates_constraint zero_distance_body"
    by (simp add: violates_constraint_def zero_distance_body_def json_get_def example_body_def)
  have n: "violates_constraint negative_distance_body"
    by (simp add: violates_constraint_def negative_distance_body_def json_get_def example_body_def)
  show ?thesis
    using z n constraint_violation_422 [OF z] constraint_violation_422 [OF n] by blast
qed

lemma json_get_mset:
  assumes "distinct (map fst b1)" "mset b1 = mset b2"
  shows "json_get b1 = json_get b2"
proof -
  have "mset (map fst b1) = mset (map fst b2)" using assms(2) by (metis mset_map)
  then have d2: "distinct (map fst b2)" using assms(1) by (metis mset_eq_imp_distinct_iff)
  have s: "set b1 = set b2" using assms(2) by (rule mset_eq_setD)
  have "map_of (rev b1) = map_of (rev b2)"
    using assms(1) d2 s
    by (subst map_of_inject_set) (simp_all add: rev_map [symmetric])
  then show ?thesis by (simp add: json_get_def fun_eq_iff)
qed

lemma TripInput_validate_cong:
  assumes "json_get b1 = json_get b2"
  shows "TripInput_validate b1 = TripInput_validate b2"
proof -
  have f: "float_field b1 = float_field b2"
    by (simp add: float_field_def assms fun_eq_iff)
  have s: "str_field b1 = str_field b2"
    by (simp add: str_field_def assms fun_eq_iff)
  show ?thesis unfolding TripInput_validate_def f s ..
qed

text \<open>
  Claim C5. Two bodies with the same members, each name written once, listed in
  different orders get the same answer: the fields are read by name, and the row is
  always built in the order in which \<open>TripInput\<close> declares them.
\<close>

theorem member_order_irrelevant:
  assumes "distinct (map fst b1)" "mset b1 = mset b2"
  shows "post_predict A b1 = post_predict A b2
       \<and> (\<forall>trip. TripInput_validate b1 = Inr trip \<longrightarrow>
            TripInput_validate b2 = Inr trip
            \<and> columns (TripInput_dict trip) =
                [''Trip_Distance_km'', ''Time_of_Day'', ''Day_of_Week'', ''Passenger_Count'',
                 ''Traffic_Conditions'', ''Weather'', ''Base_Fare'', ''Per_Km_Rate'',
                 ''Per_Minute_Rate'', ''Trip_Duration_Minutes''])"
  unfolding post_predict_def
  using TripInput_validate_cong [OF json_get_mset [OF assms]]
  by (simp add: columns_def TripInput_dict_def)

theorem member_order_irrelevant_witness:
  "distinct (map fst example_body) \<and> mset example_body = mset (rev example_body)
   \<and> post_predict example_artifacts example_body = post_predict example_artifacts (rev example_body)
   \<and> TripInput_validate example_body = Inr example_trip
   \<and> TripInput_validate (rev example_body) = Inr example_trip"
proof -
  have d: "distinct (map fst example_body)" by (simp add: example_body_def)
  have m: "mset example_body = mset (rev example_body)" by simp
  have v: "TripInput_validate example_body = Inr example_trip"
    by (rule example_validate)
  show ?thesis
    using d m v member_order_irrelevant [OF d m, of example_artifacts] by blast
qed

subsection \<open>The handler\<close>

lemma predict_price_body_cases:
  "predict_price_body A trip =
     (case encode_categorical A (categorical_features (feature_info A)) (TripInput_dict trip) of
        Inl e \<Rightarrow> Inl e
      | Inr df1 \<Rightarrow>
          (case scale_numerical A df1 of
             Inl e \<Rightarrow> Inl e
           | Inr df2 \<Rightarrow>
               (case model_predict0 A df2 of
                  Inl e \<Rightarrow> Inl e
                | Inr y \<Rightarrow> Inr (PredictionResponse_init (py_round2 y)))))"
  by (simp add: predict_price_body_def)

lemma predict_price_Response200:
  assumes "predict_price A trip = Response200 r"
  shows "\<exists>df1 df2 y.
           encode_categorical A (categorical_features (feature_info A)) (TripInput_dict trip) = Inr df1
         \<and> scale_numerical A df1 = Inr df2 \<and> model_predict0 A df2 = Inr y
         \<and> r = PredictionResponse_init (py_round2 y)"
proof -
  from assms have b: "predict_price_body A trip = Inr r"
    by (simp add: predict_price_def split: sum.splits)
  show ?thesis
  proof (cases "encode_categorical A (categorical_features (feature_info A)) (TripInput_dict trip)")
    case (Inl e)
    with b show ?thesis by (simp add: predict_price_body_cases)
  next
    case df1: (Inr df1)
    show ?thesis
    proof (cases "scale_numerical A df1")
      case (Inl e)
      with b df1 show ?thesis by (simp add: predict_price_body_cases)
    next
      case df2: (Inr df2)
      show ?thesis
      proof (cases "model_predict0 A df2")
        case (Inl e)
        with b df1 df2 show ?thesis by (simp add: predict_price_body_cases)
      next
        case (Inr y)
        with b df1 df2 show ?thesis by (simp add: predict_price_body_cases)
      qed
    qed
  qed
qed

text \<open>
  Claim C2. For a body that validates, an exception in any step of the \<^verbatim>\<open>try\<close>
  block (the encoding loop, the scaling step, the call of the model and the selection of
  its first output) is answered with status 500 and the detail
  \<^verbatim>\<open>Prediction error: \<close> followed by the text of the exception; and an answer with
  status 200 is only given when every step succeeded, with the rounded output of the
  model.
\<close>

theorem pipeline_failure_500:
  assumes "TripInput_validate body = Inr trip"
  shows "(\<forall>e. encode_categorical A (categorical_features (feature_info A)) (TripInput_dict trip) = Inl e
            \<longrightarrow> post_predict A body = HTTPException 500 (''Prediction error: '' @ str_exn e))
       \<and> (\<forall>df1 e. encode_categorical A (categorical_features (feature_info A)) (TripInput_dict trip) = Inr df1
              \<and> scale_numerical A df1 = Inl e
            \<longrightarrow> post_predict A body = HTTPException 500 (''Prediction error: '' @ str_exn e))
       \<and> (\<forall>df1 df2 e. encode_categorical A (categorical_features (feature_info A)) (TripInput_dict trip) = Inr df1
              \<and> scale_numerical A df1 = Inr df2 \<and> model_predict0 A df2 = Inl e
            \<longrightarrow> post_predict A body = HTTPException 500 (''Prediction error: '' @ str_exn e))
       \<and> (\<forall>r. post_predict A body = Response200 r
            \<longrightarrow> (\<exists>df1 df2 y. encode_categorical A (categorical_features (feature_info A)) (TripInput_dict trip) = Inr df1
                   \<and> scale_numerical A df1 = Inr df2 \<and> model_predict0 A df2 = Inr y
                   \<and> r = PredictionResponse_init (py_round2 y)))"
proof -
  have p: "post_predict A body = predict_price A trip"
    using assms by (simp add: post_predict_def)
  show ?thesis
    unfolding p
    using predict_price_Response200 [of A trip]
    by (simp add: predict_price_def predict_price_body_cases)
qed

theorem pipeline_failure_500_witness:
  "TripInput_validate midnight_body = Inr midnight_trip
   \<and> encode_categorical example_artifacts (categorical_features (feature_info example_artifacts))
        (TripInput_dict midnight_trip) = Inl (Raised unseen_midnight)
   \<and> post_predict example_artifacts midnight_body
        = HTTPException 500 (''Prediction error: '' @ str_exn (Raised unseen_midnight))"
  using midnight_validate midnight_encode
    pipeline_failure_500 [OF midnight_validate, of example_artifacts]
  by blast

subsection \<open>Rounding\<close>

lemma round_half_even_near: "\<bar>of_int (round_half_even y) - y\<bar> \<le> 1 / 2"
proof -
  have "of_int \<lfloor>y\<rfloor> \<le> y" "y < of_int \<lfloor>y\<rfloor> + 1" by linarith+
  then show ?thesis
    by (auto simp: round_half_even_def Let_def)
qed

lemma py_round2_near: "\<bar>py_round2 x - x\<bar> \<le> 1 / 200"
proof -
  have "\<bar>of_int (round_half_even (x * 100)) - x * 100\<bar> \<le> 1 / 2"
    by (rule round_half_even_near)
  then show ?thesis unfolding py_round2_def by (simp add: field_simps abs_le_iff)
qed

lemma py_round2_cents: "\<exists>k::int. py_round2 x = of_int k / 100"
  unfolding py_round2_def by blast

text \<open>
  Claim C4. When the answer has status 200, the body validated, every step of the
  pipeline succeeded, the price is the first output of the model rounded to two decimal
  places (a whole number of hundredths, at most half a hundredth away from the output),
  and the currency is \<^verbatim>\<open>SEK\<close>.
\<close>

theorem success_rounded_price:
  assumes "post_predict A body = Response200 r"
  shows "currency r = ''SEK''
       \<and> (\<exists>trip df1 df2 y ys.
             TripInput_validate body = Inr trip
           \<and> encode_categorical A (categorical_features (feature_info A)) (TripInput_dict trip) = Inr df1
           \<and> scale_numerical A df1 = Inr df2
           \<and> model A df2 = Inr (y # ys)
           \<and> predicted_price r = py_round2 y
           \<and> \<bar>predicted_price r - y\<bar> \<le> 1 / 200)
       \<and> (\<exists>k::int. predicted_price r = of_int k / 100)"
proof -
  from assms obtain trip where
    v: "TripInput_validate body = Inr trip" and p: "predict_price A trip = Response200 r"
    by (auto simp: post_predict_def split: sum.splits)
  from predict_price_Response200 [OF p] obtain df1 df2 y where
    e: "encode_categorical A (categorical_features (feature_info A)) (TripInput_dict trip) = Inr df1" and
    s: "scale_numerical A df1 = Inr df2" and
    m: "model_predict0 A df2 = Inr y" and
    r: "r = PredictionResponse_init (py_round2 y)"
    by blast
  from m obtain ys where ys: "model A df2 = Inr (y # ys)"
    by (auto simp: model_predict0_def split: sum.splits list.splits)
  have pr: "predicted_price r = py_round2 y" and c: "currency r = ''SEK''"
    using r by (simp_all add: PredictionResponse_init_def)
  have near: "\<bar>predicted_price r - y\<bar> \<le> 1 / 200"
    unfolding pr by (rule py_round2_near)
  have cents: "\<exists>k::int. predicted_price r = of_int k / 100"
    unfolding pr by (rule py_round2_cents)
  show ?thesis
    using v e s ys pr c near cents by blast
qed

theorem success_rounded_price_witness:
  "post_predict example_artifacts example_body
     = Response200 \<lparr>predicted_price = 4583 / 100, currency = ''SEK''\<rparr>
   \<and> model example_artifacts example_scaled = Inr [275 / 6]
   \<and> currency \<lparr>predicted_price = 4583 / 100, currency = ''SEK''\<rparr> = ''SEK''
   \<and> (\<exists>k::int. predicted_price \<lparr>predicted_price = 4583 / 100, currency = ''SEK''\<rparr> = of_int k / 100)"
  using example_post example_model success_rounded_price [OF example_post]
  by blast

subsection \<open>Unseen labels\<close>

lemma encode_categorical_unseen:
  assumes "map_of df col = Some (StrV label)" "label_encoders A col = Some enc"
    "enc (StrV label) = Inl m"
  shows "encode_categorical A (col # cols) df = Inl (Raised m)"
  using assms map_of_columns [OF assms(1)] by (simp add: df_getitem_def)

lemma encode_categorical_fails:
  assumes "col \<in> set cols" "map_of df col = Some (StrV label)" "label_encoders A col = Some enc"
    "enc (StrV label) = Inl m"
  shows "\<exists>e. encode_categorical A cols df = Inl e"
proof (cases "encode_categorical A cols df")
  case (Inl e)
  then show ?thesis by blast
next
  case (Inr df')
  from assms(1) obtain cs1 cs2 where split: "cols = cs1 @ col # cs2" "col \<notin> set cs1"
    by (meson split_list_first)
  from Inr obtain df1 where df1: "encode_categorical A cs1 df = Inr df1"
    by (auto simp: split encode_categorical_append split: sum.splits)
  have "map_of df1 col = Some (StrV label)"
    using encode_categorical_untouched [OF df1 split(2)] assms(2) by simp
  then have "encode_categorical A (col # cs2) df1 = Inl (Raised m)"
    using assms(3,4) by (rule encode_categorical_unseen)
  with df1 Inr show ?thesis
    by (simp add: split encode_categorical_append)
qed

text \<open>
  Claim C1, as the code has it. When the request's value for a field of the categorical
  list is outside the vocabulary of the field's encoder, the request is answered with
  status 500 and no price: the label is never given a code. The detail is
  \<^verbatim>\<open>Prediction error: \<close> followed by the text of the exception that stopped the
  encoding loop; when the field is the first one on which the loop fails, this is the
  text of the encoder's own exception. The handler adds neither the name of the field
  nor the value to it.
\<close>

theorem unseen_label_fails:
  assumes "map_of (TripInput_dict trip) col = Some (StrV label)"
    and "col \<in> set (categorical_features (feature_info A))"
    and "label_encoders A col = Some enc"
    and "\<not> in_vocabulary enc label"
  shows "(\<exists>e. predict_price_body A trip = Inl e
            \<and> predict_price A trip = HTTPException 500 (''Prediction error: '' @ str_exn e))
       \<and> (\<forall>cs1 cs2 df1. categorical_features (feature_info A) = cs1 @ col # cs2 \<and> col \<notin> set cs1
              \<and> encode_categorical A cs1 (TripInput_dict trip) = Inr df1
            \<longrightarrow> (\<exists>m. enc (StrV label) = Inl m
                   \<and> predict_price A trip = HTTPException 500 (''Prediction error: '' @ m)))"
proof -
  from assms(4) obtain m where m: "enc (StrV label) = Inl m"
    by (auto simp: in_vocabulary_def split: sum.splits)
  from encode_categorical_fails [OF assms(2) assms(1) assms(3) m]
  obtain e where "encode_categorical A (categorical_features (feature_info A)) (TripInput_dict trip) = Inl e"
    by blast
  then have first: "\<exists>e. predict_price_body A trip = Inl e
            \<and> predict_price A trip = HTTPException 500 (''Prediction error: '' @ str_exn e)"
    by (simp add: predict_price_def predict_price_body_cases)
  have second: "predict_price A trip = HTTPException 500 (''Prediction error: '' @ m)"
    if "categorical_features (feature_info A) = cs1 @ col # cs2" "col \<notin> set cs1"
      "encode_categorical A cs1 (TripInput_dict trip) = Inr df1" for cs1 cs2 df1
  proof -
    have "map_of df1 col = Some (StrV label)"
      using encode_categorical_untouched [OF that(3) that(2)] assms(1) by simp
    then have "encode_categorical A (col # cs2) df1 = Inl (Raised m)"
      using assms(3) m by (rule encode_categorical_unseen)
    then have "encode_categorical A (categorical_features (feature_info A)) (TripInput_dict trip) = Inl (Raised m)"
      using that(1,3) by (simp add: encode_categorical_append)
    then show ?thesis by (simp add: predict_price_def predict_price_body_cases)
  qed
  show ?thesis using first second m by blast
qed

lemma midnight_column:
  "map_of (TripInput_dict midnight_trip) ''Time_of_Day'' = Some (StrV ''Midnight'')"
  by (simp add: TripInput_dict_def midnight_trip_def)

lemma midnight_listed:
  "''Time_of_Day'' \<in> set (categorical_features (feature_info example_artifacts))"
  by (simp add: example_artifacts_def example_feature_info_def)

lemma midnight_encoder:
  "label_encoders example_artifacts ''Time_of_Day''
     = Some (example_encoder [''Afternoon'', ''Evening'', ''Morning''])"
  by (simp add: example_artifacts_def example_label_encoders_def)

lemma midnight_unseen:
  "\<not> in_vocabulary (example_encoder [''Afternoon'', ''Evening'', ''Morning'']) ''Midnight''"
  by (simp add: in_vocabulary_def example_encoder_def)

theorem unseen_label_fails_witness:
  "map_of (TripInput_dict midnight_trip) ''Time_of_Day'' = Some (StrV ''Midnight'')
   \<and> ''Time_of_Day'' \<in> set (categorical_features (feature_info example_artifacts))
   \<and> label_encoders example_artifacts ''Time_of_Day''
        = Some (example_encoder [''Afternoon'', ''Evening'', ''Morning''])
   \<and> \<not> in_vocabulary (example_encoder [''Afternoon'', ''Evening'', ''Morning'']) ''Midnight''
   \<and> (\<exists>e. predict_price_body example_artifacts midnight_trip = Inl e
          \<and> predict_price example_artifacts midnight_trip
              = HTTPException 500 (''Prediction error: '' @ str_exn e))"
  using midnight_column midnight_listed midnight_encoder midnight_unseen
    unseen_label_fails [OF midnight_column midnight_listed midnight_encoder midnight_unseen]
  by blast

text \<open>
  Claim C1, as it is stated, asks that the failure names the field and the value. On
  the example artifacts, whose encoders raise with scikit-learn's text, the answer to a
  request with the time of day \<^verbatim>\<open>Midnight\<close> is the 500 answer with the
  encoder's text: it has the value and not the name of the field.
\<close>

theorem unseen_label_counterexample:
  "label_encoders example_artifacts ''Time_of_Day''
     = Some (example_encoder [''Afternoon'', ''Evening'', ''Morning''])
   \<and> \<not> in_vocabulary (example_encoder [''Afternoon'', ''Evening'', ''Morning'']) ''Midnight''
   \<and> predict_price example_artifacts midnight_trip
       = HTTPException 500 (''Prediction error: '' @ unseen_midnight)
   \<and> \<not> sublist ''Time_of_Day'' (''Prediction error: '' @ unseen_midnight)"
proof -
  have "\<not> sublist ''Time_of_Day'' (''Prediction error: '' @ unseen_midnight)"
    by code_simp
  then show ?thesis
    using midnight_encoder midnight_unseen midnight_predict by blast
qed

subsection \<open>The serving process\<close>

lemma encode_categorical_run_read_only:
  assumes "read_only L"
  shows "encode_categorical_run L cols df P = (encode_categorical (artifacts_of L P) cols df, P)"
proof (induction cols arbitrary: df)
  case Nil
  show ?case by simp
next
  case (Cons col cols)
  show ?case
  proof (cases "col \<in> set (columns df)")
    case False
    then show ?thesis by (simp add: Cons.IH)
  next
    case True
    show ?thesis
    proof (cases "label_encoders_var P col")
      case None
      with True show ?thesis by (simp add: artifacts_of_def)
    next
      case (Some enc)
      have same: "P\<lparr>label_encoders_var := (label_encoders_var P)(col \<mapsto> enc)\<rparr> = P"
        using Some by (simp add: map_upd_triv)
      have look: "label_encoders (artifacts_of L P) col = Some (\<lambda>v. fst (encoder_transform L enc v))"
        using Some by (simp add: artifacts_of_def)
      show ?thesis
      proof (cases "df_getitem df col")
        case (Inl e)
        with True Some look show ?thesis by simp
      next
        case (Inr v)
        obtain r enc' where call: "encoder_transform L enc v = (r, enc')"
          by (cases "encoder_transform L enc v")
        have "enc' = enc"
          using assms call by (metis read_only_def snd_conv)
        with call have call': "encoder_transform L enc v = (r, enc)" by simp
        show ?thesis
          using True Some look Inr call' same
          by (cases r) (simp_all add: Cons.IH)
      qed
    qed
  qed
qed

lemma scale_numerical_run_read_only:
  assumes "read_only L"
  shows "scale_numerical_run L df P = (scale_numerical (artifacts_of L P) df, P)"
proof (cases "df_getitem_list df (numerical_features (feature_info_var P))")
  case (Inl e)
  then show ?thesis
    by (simp add: scale_numerical_run_def scale_numerical_def artifacts_of_def)
next
  case (Inr sub)
  obtain r s' where call: "scaler_transform L (scaler_var P) sub = (r, s')"
    by (cases "scaler_transform L (scaler_var P) sub")
  have "s' = scaler_var P"
    using assms call by (metis read_only_def snd_conv)
  with call have call': "scaler_transform L (scaler_var P) sub = (r, scaler_var P)" by simp
  show ?thesis
    using Inr call'
    by (cases r) (simp_all add: scale_numerical_run_def scale_numerical_def artifacts_of_def)
qed

lemma model_predict0_run_read_only:
  assumes "read_only L"
  shows "model_predict0_run L df P = (model_predict0 (artifacts_of L P) df, P)"
proof -
  obtain r m' where call: "model_predict L (model_var P) df = (r, m')"
    by (cases "model_predict L (model_var P) df")
  have "m' = model_var P"
    using assms call by (metis read_only_def snd_conv)
  with call have call': "model_predict L (model_var P) df = (r, model_var P)" by simp
  show ?thesis
  proof (cases r)
    case (Inl m)
    with call' show ?thesis
      by (simp add: model_predict0_run_def model_predict0_def artifacts_of_def)
  next
    case (Inr ys)
    with call' show ?thesis
      by (cases ys) (simp_all add: model_predict0_run_def model_predict0_def artifacts_of_def)
  qed
qed

lemma predict_price_body_run_read_only:
  assumes "read_only L"
  shows "predict_price_body_run L trip P = (predict_price_body (artifacts_of L P) trip, P)"
proof -
  have f: "feature_info (artifacts_of L P) = feature_info_var P"
    by (simp add: artifacts_of_def)
  show ?thesis
    unfolding predict_price_body_run_def predict_price_body_cases f Let_def
      encode_categorical_run_read_only [OF assms]
    by (simp add: scale_numerical_run_read_only [OF assms] model_predict0_run_read_only [OF assms]
        split: sum.splits)
qed

lemma post_predict_run_read_only:
  assumes "read_only L"
  shows "post_predict_run L body P = (post_predict (artifacts_of L P) body, P)"
  by (simp add: post_predict_run_def post_predict_def predict_price_run_def predict_price_def
      predict_price_body_run_read_only [OF assms] split: sum.splits)

lemma serve_read_only:
  assumes "read_only L"
  shows "serve L P bodies = (map (post_predict (artifacts_of L P)) bodies, P)"
  by (induction bodies) (simp_all add: post_predict_run_read_only [OF assms])

text \<open>
  Claim C6. With the artifacts held fixed, that is, when no method of the libraries
  changes the object it is called on, the handler changes nothing either: a request
  leaves the four variables as it found them, on success and on every failure; the
  answer to a body is a function of the body and the loaded artifacts alone, so two
  requests with the same body get the same answer whatever was served in between.
\<close>

theorem serve_deterministic:
  assumes "read_only L"
  shows "post_predict_run L body P = (post_predict (artifacts_of L P) body, P)
       \<and> serve L P bodies = (map (post_predict (artifacts_of L P)) bodies, P)
       \<and> serve L P (bodies @ [body] @ bodies' @ [body])
           = (map (post_predict (artifacts_of L P)) bodies @ [post_predict (artifacts_of L P) body]
                @ map (post_predict (artifacts_of L P)) bodies' @ [post_predict (artifacts_of L P) body], P)"
  using post_predict_run_read_only [OF assms] serve_read_only [OF assms] by simp

lemma example_read_only: "read_only example_library"
  by (simp add: read_only_def example_library_def)

lemma example_loaded: "artifacts_of example_library example_process = example_artifacts"
proof -
  have "label_encoders (artifacts_of example_library example_process) col
          = label_encoders example_artifacts col" for col
    by (simp add: artifacts_of_def example_library_def example_process_def
        example_artifacts_def example_label_encoders_def)
  then have "label_encoders (artifacts_of example_library example_process)
          = label_encoders example_artifacts" by blast
  then show ?thesis
    by (simp add: artifacts_of_def example_library_def example_process_def example_artifacts_def)
qed

lemma midnight_post:
  "post_predict example_artifacts midnight_body
     = HTTPException 500 (''Prediction error: '' @ unseen_midnight)"
  by (simp add: post_predict_def midnight_validate midnight_predict)

theorem serve_deterministic_witness:
  "read_only example_library
   \<and> serve example_library example_process [example_body, midnight_body, example_body]
       = ([Response200 \<lparr>predicted_price = 4583 / 100, currency = ''SEK''\<rparr>,
           HTTPException 500 (''Prediction error: '' @ unseen_midnight),
           Response200 \<lparr>predicted_price = 4583 / 100, currency = ''SEK''\<rparr>],
          example_process)"
  using example_read_only
    serve_deterministic [OF example_read_only, of _ example_process
      "[example_body, midnight_body, example_body]"]
  by (simp add: example_loaded example_post midnight_post)

text \<open>
  The hypothesis is needed: the handler passes on what the objects do. With objects
  that count their calls, one request leaves the scaler and the model changed.
\<close>

lemma counting_is_observed:
  "\<not> read_only counting_library
   \<and> predict_price_run counting_library example_trip counting_process
       = (Response200 \<lparr>predicted_price = 0, currency = ''SEK''\<rparr>,
          counting_process\<lparr>scaler_var := 1, model_var := 1\<rparr>)"
proof -
  have n: "\<not> read_only counting_library"
    by (simp add: read_only_def counting_library_def)
  have r: "py_round2 0 = 0"
    by (simp add: py_round2_def round_half_even_def)
  have "predict_price_run counting_library example_trip counting_process
       = (Response200 \<lparr>predicted_price = 0, currency = ''SEK''\<rparr>,
          counting_process\<lparr>scaler_var := 1, model_var := 1\<rparr>)"
    by (simp add: predict_price_run_def predict_price_body_run_def counting_process_def
        counting_library_def scale_numerical_run_def df_getitem_list_def df_setitem_list_def
        model_predict0_run_def PredictionResponse_init_def r)
  with n show ?thesis by blast
qed

section \<open>Properties of the client\<close>

lemma str_nat_500: "str_nat 500 = ''500''"
  by (simp add: str_nat.simps [of 500] str_nat.simps [of 50] str_nat.simps [of 5] digit_char_def)

subsection \<open>Places that are not found\<close>

lemma not_found_reported:
  assumes "geocode S (form_from_location f) = Inr from_loc"
    and "geocode S (form_to_location f) = Inr to_loc"
    and "from_loc = None \<or> to_loc = None"
  shows "route_tab S f True session =
           (Some (RouteFailure (join '' | '' (error_msg f from_loc to_loc))),
            [St_error (cross_mark @ '' '' @ join '' | '' (error_msg f from_loc to_loc))],
            [])"
proof -
  have tried: "route_try S f = (Inr (RouteFailure (join '' | '' (error_msg f from_loc to_loc))), [])"
    using assms by (auto simp: route_try_def split: option.splits)
  show ?thesis
    by (simp add: route_tab_def route_predict_def tried)
qed

lemma not_found_named:
  "(from_loc = None \<longrightarrow>
      sublist (''Could not find location: '' @ form_from_location f)
        (join '' | '' (error_msg f from_loc to_loc)))
   \<and> (to_loc = None \<longrightarrow>
      sublist (''Could not find location: '' @ form_to_location f)
        (join '' | '' (error_msg f from_loc to_loc)))"
proof -
  have from_named: "sublist (''Could not find location: '' @ form_from_location f)
              (join '' | '' (error_msg f from_loc to_loc))" if "from_loc = None"
    using that by (cases to_loc) (simp_all add: error_msg_def)
  have to_named: "sublist (''Could not find location: '' @ form_to_location f)
              (join '' | '' (error_msg f from_loc to_loc))" if "to_loc = None"
  proof (cases from_loc)
    case None
    have "sublist (''Could not find location: '' @ form_to_location f)
            ((''Could not find location: '' @ form_from_location f @ '' | '')
              @ (''Could not find location: '' @ form_to_location f))"
      by (rule sublist_append_leftI)
    with None that show ?thesis by (simp add: error_msg_def)
  next
    case (Some a)
    with that show ?thesis by (simp add: error_msg_def)
  qed
  show ?thesis using from_named to_named by blast
qed

lemma lookup_raises_reported:
  assumes "geocode S (form_from_location f) = Inl e
           \<or> (\<exists>from_loc. geocode S (form_from_location f) = Inr from_loc
                \<and> geocode S (form_to_location f) = Inl e)"
  shows "route_tab S f True session =
           (Some (RouteFailure (str_client_exn e)),
            [St_error (cross_mark @ '' '' @ str_client_exn e)], [])"
proof -
  have "route_try S f = (Inl e, [])"
    using assms by (auto simp: route_try_def)
  then show ?thesis
    by (simp add: route_tab_def route_predict_def)
qed

text \<open>
  Claim C8, as the code has it. A click on the route button posts nothing to the
  prediction service unless both places are found. When both lookups of the geocoder
  return and at least one place is not found, the stored failure has, for each place
  that was not found, \<^verbatim>\<open>Could not find location: \<close> and the name as typed. When a
  lookup raises, also after the other place was not found, the stored failure is the
  text of the exception. In each case the page shows the stored message as an error, in
  the run of the click and in every later run that finds it in the session state.
\<close>

theorem geocoding_failure_reported:
  "(\<forall>from_loc to_loc.
       geocode S (form_from_location f) = Inr from_loc
       \<and> geocode S (form_to_location f) = Inr to_loc
       \<and> (from_loc = None \<or> to_loc = None) \<longrightarrow>
       route_tab S f True session =
         (Some (RouteFailure (join '' | '' (error_msg f from_loc to_loc))),
          [St_error (cross_mark @ '' '' @ join '' | '' (error_msg f from_loc to_loc))],
          [])
       \<and> (from_loc = None \<longrightarrow>
            sublist (''Could not find location: '' @ form_from_location f)
              (join '' | '' (error_msg f from_loc to_loc)))
       \<and> (to_loc = None \<longrightarrow>
            sublist (''Could not find location: '' @ form_to_location f)
              (join '' | '' (error_msg f from_loc to_loc))))
   \<and> (\<forall>e. (geocode S (form_from_location f) = Inl e
            \<or> (\<exists>from_loc. geocode S (form_from_location f) = Inr from_loc
                  \<and> geocode S (form_to_location f) = Inl e)) \<longrightarrow>
       route_tab S f True session =
         (Some (RouteFailure (str_client_exn e)),
          [St_error (cross_mark @ '' '' @ str_client_exn e)], []))
   \<and> (\<forall>msg. route_tab S f False (Some (RouteFailure msg)) =
         (Some (RouteFailure msg), [St_error (cross_mark @ '' '' @ msg)], []))"
proof -
  have later: "route_tab S f False (Some (RouteFailure msg)) =
         (Some (RouteFailure msg), [St_error (cross_mark @ '' '' @ msg)], [])" for msg
    by (simp add: route_tab_def)
  show ?thesis
    using not_found_reported [of S f _ _ session] not_found_named [of _ f]
      lookup_raises_reported [of S f _ session] later
    by blast
qed

lemma atlantis_from:
  "geocode failing_services (form_from_location atlantis_route_form)
     = Inr (Some \<lparr>latitude = 5933 / 100, longitude = 1807 / 100\<rparr>)"
  by (simp add: failing_services_def atlantis_route_form_def example_route_form_def
      example_geocode_def)

lemma atlantis_to:
  "geocode failing_services (form_to_location atlantis_route_form) = Inr None"
  by (simp add: failing_services_def atlantis_route_form_def example_route_form_def
      example_geocode_def goteborg_def)

lemma atlantis_msg:
  "join '' | '' (error_msg atlantis_route_form
      (Some \<lparr>latitude = 5933 / 100, longitude = 1807 / 100\<rparr>) None)
     = ''Could not find location: Atlantis''"
  by (simp add: error_msg_def atlantis_route_form_def example_route_form_def)

lemma flaky_from:
  "geocode flaky_services (form_from_location flaky_route_form) = Inr None"
  by (simp add: flaky_services_def flaky_route_form_def)

lemma flaky_to:
  "geocode flaky_services (form_to_location flaky_route_form)
     = Inl (Exception ''Service timed out'')"
  by (simp add: flaky_services_def flaky_route_form_def example_route_form_def goteborg_def)

theorem geocoding_failure_reported_witness:
  "geocode failing_services (form_from_location atlantis_route_form)
     = Inr (Some \<lparr>latitude = 5933 / 100, longitude = 1807 / 100\<rparr>)
   \<and> geocode failing_services (form_to_location atlantis_route_form) = Inr None
   \<and> route_tab failing_services atlantis_route_form True None =
       (Some (RouteFailure ''Could not find location: Atlantis''),
        [St_error (cross_mark @ '' '' @ ''Could not find location: Atlantis'')],
        [])
   \<and> sublist (''Could not find location: '' @ form_to_location atlantis_route_form)
       ''Could not find location: Atlantis''
   \<and> geocode flaky_services (form_from_location flaky_route_form) = Inr None
   \<and> geocode flaky_services (form_to_location flaky_route_form)
       = Inl (Exception ''Service timed out'')
   \<and> route_tab flaky_services flaky_route_form True None =
       (Some (RouteFailure (str_client_exn (Exception ''Service timed out''))),
        [St_error (cross_mark @ '' '' @ str_client_exn (Exception ''Service timed out''))],
        [])"
proof -
  have found: "route_tab failing_services atlantis_route_form True None =
       (Some (RouteFailure (join '' | '' (error_msg atlantis_route_form
           (Some \<lparr>latitude = 5933 / 100, longitude = 1807 / 100\<rparr>) None))),
        [St_error (cross_mark @ '' '' @ join '' | '' (error_msg atlantis_route_form
           (Some \<lparr>latitude = 5933 / 100, longitude = 1807 / 100\<rparr>) None))],
        [])
     \<and> sublist (''Could not find location: '' @ form_to_location atlantis_route_form)
        (join '' | '' (error_msg atlantis_route_form
           (Some \<lparr>latitude = 5933 / 100, longitude = 1807 / 100\<rparr>) None))"
    using geocoding_failure_reported [of failing_services atlantis_route_form None]
      atlantis_from atlantis_to by blast
  have raised: "route_tab flaky_services flaky_route_form True None =
       (Some (RouteFailure (str_client_exn (Exception ''Service timed out''))),
        [St_error (cross_mark @ '' '' @ str_client_exn (Exception ''Service timed out''))],
        [])"
    using geocoding_failure_reported [of flaky_services flaky_route_form None]
      flaky_from flaky_to by blast
  show ?thesis
    using atlantis_from atlantis_to flaky_from flaky_to found raised
    unfolding atlantis_msg by blast
qed

text \<open>
  Claim C8, as it is stated, has the message name each place that was not found. With
  a geocoder that does not find the first place and raises on the second, the stored
  and displayed message is the text of the exception, and the place that was not found
  is not in it.
\<close>

theorem unresolved_unnamed_counterexample:
  "geocode flaky_services (form_from_location flaky_route_form) = Inr None
   \<and> form_from_location flaky_route_form = ''Atlantis''
   \<and> geocode flaky_services (form_to_location flaky_route_form)
       = Inl (Exception ''Service timed out'')
   \<and> route_tab flaky_services flaky_route_form True None =
       (Some (RouteFailure ''Service timed out''),
        [St_error (cross_mark @ '' '' @ ''Service timed out'')], [])
   \<and> \<not> sublist ''Atlantis'' (cross_mark @ '' '' @ ''Service timed out'')"
proof -
  have n: "form_from_location flaky_route_form = ''Atlantis''"
    by (simp add: flaky_route_form_def)
  have "route_try flaky_services flaky_route_form = (Inl (Exception ''Service timed out''), [])"
    by (simp add: route_try_def flaky_from flaky_to)
  then have r: "route_tab flaky_services flaky_route_form True None =
       (Some (RouteFailure ''Service timed out''),
        [St_error (cross_mark @ '' '' @ ''Service timed out'')], [])"
    by (simp add: route_tab_def route_predict_def)
  have s: "\<not> sublist ''Atlantis'' (cross_mark @ '' '' @ ''Service timed out'')"
    by code_simp
  show ?thesis using flaky_from n flaky_to r s by blast
qed

subsection \<open>Answers that are not a price\<close>

lemma basic_predict_not_200:
  assumes "post S (basic_trip_data f) = Inr response" "status_code response \<noteq> 200"
  shows "basic_predict S f =
           ([St_error (''Error: '' @ str_nat (status_code response))], [basic_trip_data f])"
  using assms by (simp add: basic_predict_def)

lemma basic_predict_raise:
  assumes "post S (basic_trip_data f) = Inl e"
  shows "basic_predict S f = ([basic_except e], [basic_trip_data f])"
  using assms by (simp add: basic_predict_def)

lemma route_predict_posted:
  assumes "geocode S (form_from_location f) = Inr (Some a)"
    and "geocode S (form_to_location f) = Inr (Some b)"
    and "geodesic_kilometers S (latitude a, longitude a) (latitude b, longitude b) = Inr d"
  shows "route_try S f =
           (case post S (route_trip_data f d) of
              Inl e \<Rightarrow> (Inl e, [route_trip_data f d])
            | Inr response \<Rightarrow> (route_store f d (make_map f a b d) response, [route_trip_data f d]))"
  using assms by (simp add: route_try_def Let_def)

text \<open>
  Claim C9, as the code has it. When the service answers with a status other than 200,
  the basic tab shows \<^verbatim>\<open>Error: \<close> and the status code, and the route tab stores
  and shows \<^verbatim>\<open>Prediction error: \<close> and the status code; the body of the answer is
  not read. When the request raises a connection error, the basic tab shows
  \<^verbatim>\<open>Cannot connect to backend API\<close> and the route tab shows the text of the
  exception. In none of these cases does the page show a price.
\<close>

theorem failure_shows_status:
  "(\<forall>response. post S (basic_trip_data f) = Inr response \<and> status_code response \<noteq> 200 \<longrightarrow>
        basic_predict S f =
          ([St_error (''Error: '' @ str_nat (status_code response))], [basic_trip_data f])
        \<and> \<not> list_ex shows_price (fst (basic_predict S f)))
   \<and> (\<forall>m. post S (basic_trip_data f) = Inl (ConnectionError m) \<longrightarrow>
        basic_predict S f = ([St_error ''Cannot connect to backend API''], [basic_trip_data f])
        \<and> \<not> list_ex shows_price (fst (basic_predict S f)))
   \<and> (\<forall>a b d response.
        geocode S (form_from_location g) = Inr (Some a)
        \<and> geocode S (form_to_location g) = Inr (Some b)
        \<and> geodesic_kilometers S (latitude a, longitude a) (latitude b, longitude b) = Inr d
        \<and> post S (route_trip_data g d) = Inr response \<and> status_code response \<noteq> 200 \<longrightarrow>
        route_tab S g True session =
          (Some (RouteFailure (''Prediction error: '' @ str_nat (status_code response))),
           [St_error (cross_mark @ '' '' @ ''Prediction error: '' @ str_nat (status_code response))],
           [route_trip_data g d])
        \<and> \<not> list_ex shows_price (fst (snd (route_tab S g True session))))
   \<and> (\<forall>a b d e.
        geocode S (form_from_location g) = Inr (Some a)
        \<and> geocode S (form_to_location g) = Inr (Some b)
        \<and> geodesic_kilometers S (latitude a, longitude a) (latitude b, longitude b) = Inr d
        \<and> post S (route_trip_data g d) = Inl e \<longrightarrow>
        route_tab S g True session =
          (Some (RouteFailure (str_client_exn e)),
           [St_error (cross_mark @ '' '' @ str_client_exn e)],
           [route_trip_data g d])
        \<and> \<not> list_ex shows_price (fst (snd (route_tab S g True session))))"
proof (intro conjI allI impI)
  fix response
  assume a: "post S (basic_trip_data f) = Inr response \<and> status_code response \<noteq> 200"
  then show "basic_predict S f =
      ([St_error (''Error: '' @ str_nat (status_code response))], [basic_trip_data f])"
    by (simp add: basic_predict_not_200)
  then show "\<not> list_ex shows_price (fst (basic_predict S f))" by simp
next
  fix m
  assume a: "post S (basic_trip_data f) = Inl (ConnectionError m)"
  then show "basic_predict S f = ([St_error ''Cannot connect to backend API''], [basic_trip_data f])"
    by (simp add: basic_predict_raise)
  then show "\<not> list_ex shows_price (fst (basic_predict S f))" by simp
next
  fix a b d response
  assume a: "geocode S (form_from_location g) = Inr (Some a)
        \<and> geocode S (form_to_location g) = Inr (Some b)
        \<and> geodesic_kilometers S (latitude a, longitude a) (latitude b, longitude b) = Inr d
        \<and> post S (route_trip_data g d) = Inr response \<and> status_code response \<noteq> 200"
  then have "route_try S g =
      (Inr (RouteFailure (''Prediction error: '' @ str_nat (status_code response))),
       [route_trip_data g d])"
    by (simp add: route_predict_posted [of S g a b d] route_store_def)
  then show "route_tab S g True session =
          (Some (RouteFailure (''Prediction error: '' @ str_nat (status_code response))),
           [St_error (cross_mark @ '' '' @ ''Prediction error: '' @ str_nat (status_code response))],
           [route_trip_data g d])"
    by (simp add: route_tab_def route_predict_def)
  then show "\<not> list_ex shows_price (fst (snd (route_tab S g True session)))" by simp
next
  fix a b d e
  assume a: "geocode S (form_from_location g) = Inr (Some a)
        \<and> geocode S (form_to_location g) = Inr (Some b)
        \<and> geodesic_kilometers S (latitude a, longitude a) (latitude b, longitude b) = Inr d
        \<and> post S (route_trip_data g d) = Inl e"
  then have "route_try S g = (Inl e, [route_trip_data g d])"
    by (simp add: route_predict_posted [of S g a b d])
  then show "route_tab S g True session =
          (Some (RouteFailure (str_client_exn e)),
           [St_error (cross_mark @ '' '' @ str_client_exn e)],
           [route_trip_data g d])"
    by (simp add: route_tab_def route_predict_def)
  then show "\<not> list_ex shows_price (fst (snd (route_tab S g True session)))" by simp
qed

lemma failing_post:
  "post failing_services body
     = Inr \<lparr>status_code = 500, json = Inr [(''detail'', JStr server_detail)]\<rparr>"
  by (simp add: failing_services_def)

lemma unreachable_post:
  "post unreachable_services body = Inl (ConnectionError ''Connection refused'')"
  by (simp add: unreachable_services_def)

lemma example_route_from:
  "geocode failing_services (form_from_location example_route_form)
     = Inr (Some \<lparr>latitude = 5933 / 100, longitude = 1807 / 100\<rparr>)"
  by (simp add: failing_services_def example_route_form_def example_geocode_def)

lemma example_route_to:
  "geocode failing_services (form_to_location example_route_form)
     = Inr (Some \<lparr>latitude = 5771 / 100, longitude = 1197 / 100\<rparr>)"
  by (simp add: failing_services_def example_route_form_def example_geocode_def goteborg_def)

lemma example_route_distance:
  "geodesic_kilometers failing_services x y = Inr 398"
  by (simp add: failing_services_def)

lemma unreachable_route_from:
  "geocode unreachable_services (form_from_location example_route_form)
     = Inr (Some \<lparr>latitude = 5933 / 100, longitude = 1807 / 100\<rparr>)"
  by (simp add: unreachable_services_def example_route_form_def example_geocode_def)

lemma unreachable_route_to:
  "geocode unreachable_services (form_to_location example_route_form)
     = Inr (Some \<lparr>latitude = 5771 / 100, longitude = 1197 / 100\<rparr>)"
  by (simp add: unreachable_services_def example_route_form_def example_geocode_def goteborg_def)

lemma unreachable_route_distance:
  "geodesic_kilometers unreachable_services x y = Inr 398"
  by (simp add: unreachable_services_def)

theorem failure_shows_status_witness:
  "basic_predict failing_services example_form
     = ([St_error ''Error: 500''], [basic_trip_data example_form])
   \<and> basic_predict unreachable_services example_form
     = ([St_error ''Cannot connect to backend API''], [basic_trip_data example_form])
   \<and> route_tab failing_services example_route_form True None
     = (Some (RouteFailure ''Prediction error: 500''),
        [St_error (cross_mark @ '' '' @ ''Prediction error: 500'')],
        [route_trip_data example_route_form 398])
   \<and> route_tab unreachable_services example_route_form True None
     = (Some (RouteFailure ''Connection refused''),
        [St_error (cross_mark @ '' '' @ ''Connection refused'')],
        [route_trip_data example_route_form 398])"
proof -
  have s: "status_code \<lparr>status_code = 500, json = Inr [(''detail'', JStr server_detail)]\<rparr> \<noteq> 200"
    by simp
  have n: "status_code \<lparr>status_code = 500, json = Inr [(''detail'', JStr server_detail)]\<rparr> = 500"
    by simp
  have basic: "basic_predict failing_services example_form
     = ([St_error (''Error: '' @ str_nat 500)], [basic_trip_data example_form])"
    using failure_shows_status [of failing_services example_form] failing_post s n by metis
  have conn: "basic_predict unreachable_services example_form
     = ([St_error ''Cannot connect to backend API''], [basic_trip_data example_form])"
    using failure_shows_status [of unreachable_services example_form] unreachable_post by blast
  have route: "route_tab failing_services example_route_form True None
     = (Some (RouteFailure (''Prediction error: '' @ str_nat 500)),
        [St_error (cross_mark @ '' '' @ ''Prediction error: '' @ str_nat 500)],
        [route_trip_data example_route_form 398])"
    using failure_shows_status [of failing_services _ example_route_form None]
      example_route_from example_route_to example_route_distance failing_post s n by metis
  have down: "route_tab unreachable_services example_route_form True None
     = (Some (RouteFailure (str_client_exn (ConnectionError ''Connection refused''))),
        [St_error (cross_mark @ '' '' @ str_client_exn (ConnectionError ''Connection refused''))],
        [route_trip_data example_route_form 398])"
    using failure_shows_status [of unreachable_services _ example_route_form None]
      unreachable_route_from unreachable_route_to unreachable_route_distance unreachable_post
    by metis
  show ?thesis
    using basic conn route down by (simp add: str_nat_500)
qed

text \<open>
  Claim C9, as it is stated, asks that the text of the server's error is shown. The
  service of the example answers with status 500 and a detail; both tabs show the status
  code, and the detail is in neither text.
\<close>

theorem server_text_counterexample:
  "post failing_services (basic_trip_data example_form)
     = Inr \<lparr>status_code = 500, json = Inr [(''detail'', JStr server_detail)]\<rparr>
   \<and> basic_predict failing_services example_form
     = ([St_error ''Error: 500''], [basic_trip_data example_form])
   \<and> \<not> sublist server_detail ''Error: 500''
   \<and> route_tab failing_services example_route_form True None
     = (Some (RouteFailure ''Prediction error: 500''),
        [St_error (cross_mark @ '' '' @ ''Prediction error: 500'')],
        [route_trip_data example_route_form 398])
   \<and> \<not> sublist server_detail (cross_mark @ '' '' @ ''Prediction error: 500'')"
proof -
  have basic: "basic_predict failing_services example_form
     = ([St_error ''Error: 500''], [basic_trip_data example_form])"
    by (simp add: basic_predict_not_200 [OF failing_post] str_nat_500)
  have "route_try failing_services example_route_form =
      (Inr (RouteFailure ''Prediction error: 500''), [route_trip_data example_route_form 398])"
    by (simp add: route_predict_posted [OF example_route_from example_route_to example_route_distance]
        failing_post route_store_def str_nat_500)
  then have route: "route_tab failing_services example_route_form True None
     = (Some (RouteFailure ''Prediction error: 500''),
        [St_error (cross_mark @ '' '' @ ''Prediction error: 500'')],
        [route_trip_data example_route_form 398])"
    by (simp add: route_tab_def route_predict_def)
  have t1: "\<not> sublist server_detail ''Error: 500''" by code_simp
  have t2: "\<not> sublist server_detail (cross_mark @ '' '' @ ''Prediction error: 500'')" by code_simp
  show ?thesis using failing_post basic route t1 t2 by blast
qed

end
